theory Spec2Isabelle
  imports
    Main
    "HOL-Library.Sublist"
    "HOL-Library.AList"
    "HOL-Library.Log_Nat"
    "HOL-Library.Monad_Syntax"
begin

section \<open>JavaScript values used by the CometAPI adapter\<close>

subsection \<open>Numbers\<close>

text \<open>
  A JavaScript number is an IEEE-754 binary64 value. \<open>Fin m e\<close> stands for \<open>m * 2 ^ e\<close>
  in the format's own normal form: \<open>2 ^ 52 \<le> \<bar>m\<bar> < 2 ^ 53\<close> and \<open>- 1074 \<le> e \<le> 971\<close>
  for a normal number, \<open>\<bar>m\<bar> < 2 ^ 52\<close> and \<open>e = - 1074\<close> for a subnormal one, and
  \<open>Fin 0 0\<close> for zero (the sign of zero is not kept: \<open>-0 === 0\<close>).
\<close>

datatype number = Fin int int | PosInf | NegInf | NaN

text \<open>\<open>floor_log2 a d\<close> is the integer part of the binary logarithm of \<open>a / d\<close>, for positive \<open>a\<close>, \<open>d\<close>.\<close>

definition floor_log2 :: "int \<Rightarrow> int \<Rightarrow> int" where
  "floor_log2 a d =
     (let t = bitlen a - bitlen d
      in if (if 0 \<le> t then d * 2 ^ nat t \<le> a else d \<le> a * 2 ^ nat (- t)) then t else t - 1)"

text \<open>The integer nearest to \<open>n / d\<close>, a tie going to the even neighbour.\<close>

definition round_half_even :: "int \<Rightarrow> int \<Rightarrow> int" where
  "round_half_even n d =
     (let q = n div d; r = n mod d
      in if 2 * r < d then q else if d < 2 * r then q + 1
         else if even q then q else q + 1)"

text \<open>
  The number nearest to the fraction \<open>n / d\<close> (with \<open>0 < d\<close>), rounding to nearest, ties to
  even, as a decimal literal is read and as every arithmetic result is rounded.
\<close>

definition round_ratio :: "int \<Rightarrow> int \<Rightarrow> number" where
  "round_ratio n d =
     (if n = 0 then Fin 0 0
      else
        let a = \<bar>n\<bar>;
            E = max (floor_log2 a d) (- 1022) - 52;
            M = (if 0 \<le> E then round_half_even a (d * 2 ^ nat E)
                 else round_half_even (a * 2 ^ nat (- E)) d);
            (M', E') = (if M = 2 ^ 53 then (2 ^ 52, E + 1) else (M, E))
        in if M' = 0 then Fin 0 0
           else if 971 < E' then (if 0 < n then PosInf else NegInf)
           else Fin (sgn n * M') E')"

definition js_int :: "int \<Rightarrow> number" where
  "js_int k = round_ratio k 1"

definition js_add :: "number \<Rightarrow> number \<Rightarrow> number" where
  "js_add x y =
     (case (x, y) of
        (NaN, _) \<Rightarrow> NaN
      | (_, NaN) \<Rightarrow> NaN
      | (PosInf, NegInf) \<Rightarrow> NaN
      | (NegInf, PosInf) \<Rightarrow> NaN
      | (PosInf, _) \<Rightarrow> PosInf
      | (_, PosInf) \<Rightarrow> PosInf
      | (NegInf, _) \<Rightarrow> NegInf
      | (_, NegInf) \<Rightarrow> NegInf
      | (Fin m1 e1, Fin m2 e2) \<Rightarrow>
          (let e = min e1 e2;
               s = m1 * 2 ^ nat (e1 - e) + m2 * 2 ^ nat (e2 - e)
           in if 0 \<le> e then round_ratio (s * 2 ^ nat e) 1 else round_ratio s (2 ^ nat (- e))))"

text \<open>\<open>x > 0\<close>.\<close>

fun js_positive :: "number \<Rightarrow> bool" where
  "js_positive (Fin m e) = (0 < m)"
| "js_positive PosInf = True"
| "js_positive NegInf = False"
| "js_positive NaN = False"

text \<open>ToBoolean on a number: zero and NaN are falsy.\<close>

fun number_truthy :: "number \<Rightarrow> bool" where
  "number_truthy (Fin m e) = (m \<noteq> 0)"
| "number_truthy NaN = False"
| "number_truthy _ = True"

text \<open>\<open>x === y\<close> on numbers: NaN equals nothing.\<close>

definition number_strict_eq :: "number \<Rightarrow> number \<Rightarrow> bool" where
  "number_strict_eq x y = (x \<noteq> NaN \<and> x = y)"

subsection \<open>Strings\<close>

fun digits :: "nat \<Rightarrow> string" where
  "digits n =
     (if n < 10 then [''0123456789'' ! n]
      else digits (n div 10) @ [''0123456789'' ! (n mod 10)])"

declare digits.simps [simp del]

text \<open>
  The value of a number that is a whole number of magnitude below \<open>2 ^ 53\<close>, where ToString
  gives the plain decimal digits.
\<close>

definition safe_integer :: "number \<Rightarrow> int option" where
  "safe_integer x =
     (case x of
        Fin m e \<Rightarrow>
          (if 0 \<le> e then (if \<bar>m * 2 ^ nat e\<bar> < 2 ^ 53 then Some (m * 2 ^ nat e) else None)
           else if 2 ^ nat (- e) dvd m \<and> \<bar>m div 2 ^ nat (- e)\<bar> < 2 ^ 53
             then Some (m div 2 ^ nat (- e)) else None)
      | _ \<Rightarrow> None)"

text \<open>
  What the language's library gives and the adapter only calls: \<open>JSON.parse\<close> (its result,
  \<open>None\<close> when it throws a SyntaxError), the digits ToString produces for a number that
  is not a whole number below \<open>2 ^ 53\<close>, and the message the engine gives the TypeError of
  a conversion to a string that fails. Every function that converts a number to text,
  parses JSON text or hands on such a TypeError takes them as its first argument.
\<close>

datatype json =
    JNull
  | JBool bool
  | JNum number
  | JStr string
  | JArr "json list"
  | JObj "(string \<times> json) list"

record builtins =
  JSON_parse :: "string \<Rightarrow> json option"
  Number_toString :: "number \<Rightarrow> string"
  TypeError_message :: string

definition number_to_string :: "'b builtins_scheme \<Rightarrow> number \<Rightarrow> string" where
  "number_to_string env x =
     (case x of
        NaN \<Rightarrow> ''NaN''
      | PosInf \<Rightarrow> ''Infinity''
      | NegInf \<Rightarrow> ''-Infinity''
      | Fin m e \<Rightarrow>
          (case safe_integer x of
             Some k \<Rightarrow> (if k < 0 then ''-'' @ digits (nat (- k)) else digits (nat k))
           | None \<Rightarrow> Number_toString env x))"

definition toLowerCase_char :: "char \<Rightarrow> char" where
  "toLowerCase_char c =
     (case map_of (zip ''ABCDEFGHIJKLMNOPQRSTUVWXYZ'' ''abcdefghijklmnopqrstuvwxyz'') c of
        Some l \<Rightarrow> l
      | None \<Rightarrow> c)"

definition toLowerCase :: "string \<Rightarrow> string" where
  "toLowerCase s = map toLowerCase_char s"

text \<open>\<open>s.startsWith(p)\<close> and \<open>s.includes(p)\<close>.\<close>

definition startsWith :: "string \<Rightarrow> string \<Rightarrow> bool" where
  "startsWith s p = prefix p s"

definition includes_string :: "string \<Rightarrow> string \<Rightarrow> bool" where
  "includes_string s p = sublist p s"

subsection \<open>JSON values and property access\<close>

text \<open>
  A value that may be \<open>undefined\<close> is a \<open>json option\<close>, \<open>None\<close> being \<open>undefined\<close>.
  An object keeps its members in the order of the text it was parsed from; a key that
  occurs twice has its last value.
\<close>

type_synonym jsval = "json option"

definition member :: "(string \<times> json) list \<Rightarrow> string \<Rightarrow> jsval" where
  "member kvs k = map_of (rev kvs) k"

text \<open>ToBoolean.\<close>

fun truthy :: "jsval \<Rightarrow> bool" where
  "truthy None = False"
| "truthy (Some JNull) = False"
| "truthy (Some (JBool b)) = b"
| "truthy (Some (JNum n)) = number_truthy n"
| "truthy (Some (JStr s)) = (s \<noteq> [])"
| "truthy (Some (JArr xs)) = True"
| "truthy (Some (JObj kvs)) = True"

text \<open>
  \<open>v.k\<close> for a key \<open>k\<close> that no prototype defines (every key the adapter reads is one):
  a TypeError (\<open>None\<close>) on \<open>undefined\<close> and \<open>null\<close>, the member of an object, and
  \<open>undefined\<close> on every other value.
\<close>

fun get_prop :: "jsval \<Rightarrow> string \<Rightarrow> jsval option" where
  "get_prop None k = None"
| "get_prop (Some JNull) k = None"
| "get_prop (Some (JObj kvs)) k = Some (member kvs k)"
| "get_prop (Some _) k = Some None"

text \<open>\<open>v?.k\<close>: \<open>undefined\<close> on \<open>undefined\<close> and \<open>null\<close>, never a TypeError.\<close>

definition get_prop_opt :: "jsval \<Rightarrow> string \<Rightarrow> jsval" where
  "get_prop_opt v k = (case get_prop v k of None \<Rightarrow> None | Some r \<Rightarrow> r)"

text \<open>
  ToString on a JSON value, \<open>None\<close> when it throws a TypeError. An array joins its
  elements with commas, \<open>null\<close> elements giving the empty string. An object gives
  \<open>[object Object]\<close> through \<open>Object.prototype.toString\<close>, unless it has a member of
  its own named \<open>toString\<close>: that member is data, not a function, \<open>valueOf\<close> then gives
  back the object, and the conversion throws.
\<close>

fun join_strings :: "string list \<Rightarrow> string" where
  "join_strings [] = []"
| "join_strings [s] = s"
| "join_strings (s # t # ss) = s @ '','' @ join_strings (t # ss)"

fun json_to_string :: "'b builtins_scheme \<Rightarrow> json \<Rightarrow> string option"
  and json_element_strings :: "'b builtins_scheme \<Rightarrow> json list \<Rightarrow> string list option" where
  "json_to_string env JNull = Some ''null''"
| "json_to_string env (JBool b) = Some (if b then ''true'' else ''false'')"
| "json_to_string env (JNum n) = Some (number_to_string env n)"
| "json_to_string env (JStr s) = Some s"
| "json_to_string env (JArr xs) = map_option join_strings (json_element_strings env xs)"
| "json_to_string env (JObj kvs) =
     (if member kvs ''toString'' \<noteq> None then None else Some ''[object Object]'')"
| "json_element_strings env [] = Some []"
| "json_element_strings env (x # xs) =
     (case (if x = JNull then Some [] else json_to_string env x) of
        None \<Rightarrow> None
      | Some s \<Rightarrow> map_option ((#) s) (json_element_strings env xs))"

definition jsval_to_string :: "'b builtins_scheme \<Rightarrow> jsval \<Rightarrow> string option" where
  "jsval_to_string env v =
     (case v of None \<Rightarrow> Some ''undefined'' | Some j \<Rightarrow> json_to_string env j)"

subsection \<open>Thrown values\<close>

text \<open>
  What a \<open>catch\<close> clause can receive is any value of the language: a primitive
  (\<open>undefined\<close>, \<open>null\<close>, a boolean, a number, a BigInt, a string, a Symbol), an Error
  instance (the adapter's own \<open>new Error(...)\<close>, or an error of the HTTP client, which
  adds a \<open>code\<close> and the response's \<open>error\<close> body to it), or another object, taken here
  to be a plain object or an array that holds JSON data.
\<close>

record js_error =
  err_name :: string
  err_message :: string
  err_code :: jsval
  err_error :: jsval

datatype thrown =
    ThrownUndefined
  | ThrownNull
  | ThrownBoolean bool
  | ThrownNumber number
  | ThrownBigInt int
  | ThrownString string
  | ThrownSymbol
  | ThrownError js_error
  | ThrownObject "(string \<times> json) list"
  | ThrownArray "json list"

definition new_Error :: "string \<Rightarrow> thrown" where
  "new_Error msg =
     ThrownError \<lparr>err_name = ''Error'', err_message = msg, err_code = None, err_error = None\<rparr>"

text \<open>The TypeError the engine throws when a value has no conversion to a string.\<close>

definition TypeError :: "'b builtins_scheme \<Rightarrow> thrown" where
  "TypeError env =
     ThrownError \<lparr>err_name = ''TypeError'', err_message = TypeError_message env,
                  err_code = None, err_error = None\<rparr>"

section \<open>The catalog resolver (\<open>src/api/providers/fetchers/cometapi.ts\<close>)\<close>

subsection \<open>Model metadata and the static table\<close>

record ModelInfo =
  maxTokens :: "int option"
  contextWindow :: int
  supportsImages :: bool
  supportsPromptCache :: bool
  inputPrice :: "number option"
  outputPrice :: "number option"
  description :: string

text \<open>
  An object as the insertion-ordered list of its own properties. \<open>obj[k] = v\<close> on an
  object literal adds or replaces the property \<open>k\<close>, except for the key \<open>__proto__\<close>,
  which \<open>Object.prototype\<close> defines as a setter: assigning an object through it changes
  the prototype and adds no property. Spreading copies own properties with
  \<open>CreateDataProperty\<close>, the later object winning.
\<close>

type_synonym 'a js_object = "(string \<times> 'a) list"

definition set_property :: "'a js_object \<Rightarrow> string \<Rightarrow> 'a \<Rightarrow> 'a js_object" where
  "set_property obj k v = (if k = ''__proto__'' then obj else AList.update k v obj)"

definition spread :: "'a js_object \<Rightarrow> 'a js_object \<Rightarrow> 'a js_object" where
  "spread base over = foldl (\<lambda>acc (k, v). AList.update k v acc) base over"

text \<open>
  Two files of the repository export a table named \<open>cometApiModels\<close>. The resolver takes
  the table as its argument \<open>cometApiModels\<close>; both candidates are given here.
\<close>

definition cometApiModels_claude_3_5 :: "ModelInfo js_object" where
  "cometApiModels_claude_3_5 =
     [(''claude-3-5-sonnet-20241022'',
         \<lparr>maxTokens = Some 8192, contextWindow = 200000, supportsImages = True,
          supportsPromptCache = False, inputPrice = Some (js_int 3),
          outputPrice = Some (js_int 15),
          description = ''Anthropic's Claude 3.5 Sonnet via CometAPI''\<rparr>),
      (''claude-3-5-haiku-20241022'',
         \<lparr>maxTokens = Some 8192, contextWindow = 200000, supportsImages = True,
          supportsPromptCache = False, inputPrice = Some (js_int 1),
          outputPrice = Some (js_int 5),
          description = ''Anthropic's Claude 3.5 Haiku via CometAPI''\<rparr>)]"

definition cometApiModels_3_7 :: "ModelInfo js_object" where
  "cometApiModels_3_7 =
     [(''cometapi-3-7-sonnet'',
         \<lparr>maxTokens = Some 8192, contextWindow = 200000, supportsImages = True,
          supportsPromptCache = False, inputPrice = Some (js_int 3),
          outputPrice = Some (js_int 15),
          description = ''Anthropic's Claude 3.7 Sonnet via CometAPI''\<rparr>)]"

subsection \<open>The response schema\<close>

record architecture =
  modality :: "string option"
  tokenizer :: "string option"

record pricing =
  price_prompt :: "string option"
  price_completion :: "string option"

record cometApiModel =
  model_id :: string
  model_object :: "string option"
  created :: "number option"
  owned_by :: "string option"
  model_name :: "string option"
  model_description :: "string option"
  context_length :: "number option"
  model_max_tokens :: "number option"
  model_architecture :: "architecture option"
  model_pricing :: "pricing option"

text \<open>
  The zod combinators the schema is built from. A parser gives \<open>None\<close> when the value
  is rejected. \<open>z.number()\<close> rejects NaN; \<open>optional\<close> accepts a missing member,
  \<open>nullish\<close> a missing one and \<open>null\<close> (both read as absent); \<open>z.object\<close> accepts
  objects only and drops the members the schema does not name.
\<close>

fun z_string :: "json \<Rightarrow> string option" where
  "z_string (JStr s) = Some s"
| "z_string _ = None"

fun z_number :: "json \<Rightarrow> number option" where
  "z_number (JNum n) = (if n = NaN then None else Some n)"
| "z_number _ = None"

fun z_boolean :: "json \<Rightarrow> bool option" where
  "z_boolean (JBool b) = Some b"
| "z_boolean _ = None"

definition required :: "(json \<Rightarrow> 'a option) \<Rightarrow> jsval \<Rightarrow> 'a option" where
  "required p v = (case v of None \<Rightarrow> None | Some j \<Rightarrow> p j)"

definition optional :: "(json \<Rightarrow> 'a option) \<Rightarrow> jsval \<Rightarrow> 'a option option" where
  "optional p v = (case v of None \<Rightarrow> Some None | Some j \<Rightarrow> map_option Some (p j))"

definition nullish :: "(json \<Rightarrow> 'a option) \<Rightarrow> jsval \<Rightarrow> 'a option option" where
  "nullish p v =
     (case v of None \<Rightarrow> Some None | Some JNull \<Rightarrow> Some None | Some j \<Rightarrow> map_option Some (p j))"

fun z_array :: "(json \<Rightarrow> 'a option) \<Rightarrow> json \<Rightarrow> 'a list option" where
  "z_array p (JArr xs) = those (map p xs)"
| "z_array p _ = None"

fun architectureSchema :: "json \<Rightarrow> architecture option" where
  "architectureSchema (JObj kvs) =
     do {
       m \<leftarrow> nullish z_string (member kvs ''modality'');
       t \<leftarrow> nullish z_string (member kvs ''tokenizer'');
       Some \<lparr>modality = m, tokenizer = t\<rparr>
     }"
| "architectureSchema _ = None"

fun pricingSchema :: "json \<Rightarrow> pricing option" where
  "pricingSchema (JObj kvs) =
     do {
       p \<leftarrow> nullish z_string (member kvs ''prompt'');
       c \<leftarrow> nullish z_string (member kvs ''completion'');
       Some \<lparr>price_prompt = p, price_completion = c\<rparr>
     }"
| "pricingSchema _ = None"

fun cometApiModelSchema :: "json \<Rightarrow> cometApiModel option" where
  "cometApiModelSchema (JObj kvs) =
     do {
       i \<leftarrow> required z_string (member kvs ''id'');
       ob \<leftarrow> optional z_string (member kvs ''object'');
       cr \<leftarrow> optional z_number (member kvs ''created'');
       ow \<leftarrow> optional z_string (member kvs ''owned_by'');
       na \<leftarrow> optional z_string (member kvs ''name'');
       de \<leftarrow> optional z_string (member kvs ''description'');
       cl \<leftarrow> optional z_number (member kvs ''context_length'');
       mt \<leftarrow> optional z_number (member kvs ''max_tokens'');
       ar \<leftarrow> optional architectureSchema (member kvs ''architecture'');
       pr \<leftarrow> optional pricingSchema (member kvs ''pricing'');
       Some \<lparr>model_id = i, model_object = ob, created = cr, owned_by = ow, model_name = na,
             model_description = de, context_length = cl, model_max_tokens = mt,
             model_architecture = ar, model_pricing = pr\<rparr>
     }"
| "cometApiModelSchema _ = None"

text \<open>\<open>cometApiModelsResponseSchema.safeParse(data)\<close>: the descriptors on success.\<close>

fun cometApiModelsResponseSchema :: "json \<Rightarrow> cometApiModel list option" where
  "cometApiModelsResponseSchema (JObj kvs) =
     do {
       d \<leftarrow> required (z_array cometApiModelSchema) (member kvs ''data'');
       _ \<leftarrow> optional z_boolean (member kvs ''success'');
       Some d
     }"
| "cometApiModelsResponseSchema _ = None"

subsection \<open>The media-type filter\<close>

definition imageGenPatterns :: "string list" where
  "imageGenPatterns =
     [''dall-e'', ''dalle'', ''midjourney'', ''stable-diffusion'', ''sd-'', ''flux-'',
      ''playground-v'', ''ideogram'', ''recraft'', ''black-forest-labs'']"

definition prefixPatterns :: "string list" where
  "prefixPatterns = [''tts'', ''mj_'', ''veo'', ''runway'', ''suno'', ''kling_'']"

definition isTextGenerationModel :: "string \<Rightarrow> bool" where
  "isTextGenerationModel modelId =
     (let i = toLowerCase modelId;
          hasFilteredPrefix = list_ex (\<lambda>p. startsWith i p) prefixPatterns;
          hasFilteredPattern = list_ex (\<lambda>p. includes_string i p) imageGenPatterns
      in \<not> hasFilteredPrefix \<and> \<not> hasFilteredPattern)"

subsection \<open>Defaults by model family\<close>

text \<open>
  The chain of \<open>if\<close>s of the loop body: context window, image support and description
  from the lower-cased identifier, starting from \<open>8192\<close>, \<open>false\<close> and the identifier.
\<close>

definition familyDefaults :: "string \<Rightarrow> int \<times> bool \<times> string" where
  "familyDefaults ident =
     (let modelId = toLowerCase ident
      in if includes_string modelId ''claude'' then
           (if includes_string modelId ''3-5-sonnet'' then
              (200000, True, ''Claude 3.5 Sonnet - Advanced reasoning and code generation'')
            else if includes_string modelId ''3-5-haiku'' then
              (200000, True, ''Claude 3.5 Haiku - Fast and efficient responses'')
            else if includes_string modelId ''claude-3'' then
              (200000, True, ''Claude 3 series - Advanced AI assistant'')
            else (8192, False, ident))
         else if includes_string modelId ''gpt-4'' then
           (128000,
            includes_string modelId ''vision'' \<or> includes_string modelId ''4o'',
            if includes_string modelId ''4o'' then ''GPT-4o - Optimized for speed and cost''
            else ''GPT-4 - Advanced language model'')
         else if includes_string modelId ''gpt-3.5'' then
           (16385, False, ''GPT-3.5 Turbo - Fast and capable'')
         else if includes_string modelId ''qwen'' then
           (if includes_string modelId ''72b'' \<or> includes_string modelId ''110b'' then 32768
            else if includes_string modelId ''32b'' then 32768
            else 32768,
            False,
            ''Qwen '' @ (if includes_string modelId ''coder'' then ''Coder'' else [])
              @ '' - Alibaba's language model'')
         else if includes_string modelId ''abab'' then
           (245760, False, ''Minimax Abab - Chinese-optimized language model'')
         else if includes_string modelId ''gemini'' then
           (if includes_string modelId ''pro'' then 2097152 else 1048576,
            True,
            ''Google Gemini - Multimodal AI model'')
         else if includes_string modelId ''llama'' then
           (if includes_string modelId ''3.1'' then 131072 else 8192,
            False,
            ''Meta Llama - Open source language model'')
         else if includes_string modelId ''mistral'' then
           (32768, False, ''Mistral AI - European AI excellence'')
         else if includes_string modelId ''yi-'' then
           (200000, False, ''01.AI Yi - Bilingual AI model'')
         else if includes_string modelId ''deepseek'' then
           (64000, False, ''DeepSeek - Code and reasoning specialist'')
         else (8192, False, ident))"

text \<open>
  The entry the loop stores for a descriptor. \<open>parseApiPrice\<close> is the price parser of
  \<open>shared/cost\<close>, a function from an optional price text to an optional number.
\<close>

definition modelInfoOf ::
  "(string option \<Rightarrow> number option) \<Rightarrow> cometApiModel \<Rightarrow> ModelInfo" where
  "modelInfoOf parseApiPrice model =
     (case familyDefaults (model_id model) of
        (cw, si, de) \<Rightarrow>
          \<lparr>maxTokens = None,
           contextWindow = cw,
           supportsImages = si,
           supportsPromptCache = False,
           inputPrice =
             parseApiPrice (case model_pricing model of None \<Rightarrow> None | Some p \<Rightarrow> price_prompt p),
           outputPrice =
             parseApiPrice (case model_pricing model of None \<Rightarrow> None | Some p \<Rightarrow> price_completion p),
           description = de\<rparr>)"

text \<open>One turn of the loop over the descriptors.\<close>

definition addModel ::
  "(string option \<Rightarrow> number option) \<Rightarrow> ModelInfo js_object \<Rightarrow> cometApiModel
     \<Rightarrow> ModelInfo js_object" where
  "addModel parseApiPrice models model =
     (if \<not> isTextGenerationModel (model_id model) then models
      else set_property models (model_id model) (modelInfoOf parseApiPrice model))"

subsection \<open>The fetch and the resolver\<close>

record ApiHandlerOptions =
  cometApiBaseUrl :: "string option"
  cometApiKey :: "string option"
  cometApiModelId :: "string option"

record http_request =
  url :: string
  http_method :: string
  headers :: "(string \<times> string) list"
  timeout_ms :: nat

text \<open>
  A response: its status, and what \<open>response.json()\<close> resolves to or rejects with.
  \<open>response.ok\<close> holds for the statuses 200 to 299.
\<close>

record http_response =
  status :: nat
  json_body :: "thrown + json"

definition ok :: "http_response \<Rightarrow> bool" where
  "ok response = (200 \<le> status response \<and> status response \<le> 299)"

datatype effect =
    ConsoleWarn string
  | ConsoleError string
  | ConsoleLog string
  | Fetch http_request

text \<open>\<open>x || d\<close> on an optional string: the empty string is falsy.\<close>

definition string_or :: "string option \<Rightarrow> string \<Rightarrow> string" where
  "string_or x d = (case x of None \<Rightarrow> d | Some s \<Rightarrow> if s = [] then d else s)"

definition models_request :: "string \<Rightarrow> string \<Rightarrow> http_request" where
  "models_request baseURL apiKey =
     \<lparr>url = baseURL @ ''/models'',
      http_method = ''GET'',
      headers = [(''Authorization'', ''Bearer '' @ apiKey), (''Content-Type'', ''application/json'')],
      timeout_ms = 10000\<rparr>"

text \<open>
  The body of the \<open>try\<close> block: the effects it had, and the catalog it returned or the
  value it threw. \<open>fetch\<close> answers a request with a response or rejects.
\<close>

definition try_fetch_models ::
  "ModelInfo js_object \<Rightarrow> (string option \<Rightarrow> number option)
     \<Rightarrow> (http_request \<Rightarrow> thrown + http_response)
     \<Rightarrow> string \<Rightarrow> string \<Rightarrow> effect list \<times> (thrown + ModelInfo js_object)" where
  "try_fetch_models cometApiModels parseApiPrice fetch baseURL apiKey =
     (let request = models_request baseURL apiKey
      in case fetch request of
           Inl e \<Rightarrow> ([Fetch request], Inl e)
         | Inr response \<Rightarrow>
             if \<not> ok response then
               ([Fetch request],
                Inl (new_Error (''HTTP error! status: '' @ digits (status response))))
             else
               (case json_body response of
                  Inl e \<Rightarrow> ([Fetch request], Inl e)
                | Inr data \<Rightarrow>
                    (case cometApiModelsResponseSchema data of
                       None \<Rightarrow>
                         ([Fetch request,
                           ConsoleError ''CometAPI models response is invalid'',
                           ConsoleWarn ''CometAPI: Falling back to static model definitions''],
                          Inr cometApiModels)
                     | Some descriptors \<Rightarrow>
                         (let models = foldl (addModel parseApiPrice) [] descriptors;
                              mergedModels = spread cometApiModels models
                          in ([Fetch request,
                               ConsoleLog (''CometAPI: Successfully loaded ''
                                 @ digits (length models) @ '' models from API'')],
                              Inr mergedModels)))))"

text \<open>
  The resolver: the static table when the key is missing or empty (\<open>!apiKey\<close>), and
  when the \<open>try\<close> block throws anything.
\<close>

definition getCometAPIModels ::
  "ModelInfo js_object \<Rightarrow> (string option \<Rightarrow> number option)
     \<Rightarrow> (http_request \<Rightarrow> thrown + http_response)
     \<Rightarrow> 'o ApiHandlerOptions_scheme option \<Rightarrow> effect list \<times> ModelInfo js_object" where
  "getCometAPIModels cometApiModels parseApiPrice fetch options =
     (let baseURL =
            string_or (case options of None \<Rightarrow> None | Some opts \<Rightarrow> cometApiBaseUrl opts)
              ''https://api.cometapi.com/v1'';
          apiKey = string_or (case options of None \<Rightarrow> None | Some opts \<Rightarrow> cometApiKey opts) []
      in if apiKey = [] then
           ([ConsoleWarn ''CometAPI: No API key provided, using static model definitions''],
            cometApiModels)
         else
           (case try_fetch_models cometApiModels parseApiPrice fetch baseURL apiKey of
              (effects, Inr result) \<Rightarrow> (effects, result)
            | (effects, Inl error) \<Rightarrow>
                (effects @
                   [ConsoleError ''Error fetching CometAPI models:'',
                    ConsoleWarn ''CometAPI: Falling back to static model definitions''],
                 cometApiModels)))"

section \<open>The completion handler (\<open>src/api/providers/cometapi.ts\<close>)\<close>

subsection \<open>Usage and cost\<close>

record completion_tokens_details =
  reasoning_tokens :: "number option"

record prompt_tokens_details =
  cached_tokens :: "number option"

record cost_details =
  upstream_inference_cost :: "number option"

record CompletionUsage =
  completion_tokens :: "number option"
  usage_completion_tokens_details :: "completion_tokens_details option"
  prompt_tokens :: "number option"
  usage_prompt_tokens_details :: "prompt_tokens_details option"
  total_tokens :: "number option"
  cost :: "number option"
  is_byok :: "bool option"
  usage_cost_details :: "cost_details option"

text \<open>\<open>x || d\<close> on an optional number: \<open>undefined\<close>, zero and NaN give \<open>d\<close>.\<close>

definition number_or :: "number option \<Rightarrow> number \<Rightarrow> number" where
  "number_or x d = (case x of None \<Rightarrow> d | Some n \<Rightarrow> if number_truthy n then n else d)"

definition getTotalCost :: "'u CompletionUsage_scheme \<Rightarrow> number" where
  "getTotalCost lastUsage =
     js_add
       (number_or
          (case usage_cost_details lastUsage of
             None \<Rightarrow> None
           | Some d \<Rightarrow> upstream_inference_cost d)
          (js_int 0))
       (number_or (cost lastUsage) (js_int 0))"

subsection \<open>Chunks in, events out\<close>

record usage_event =
  inputTokens :: number
  outputTokens :: number
  cacheReadTokens :: "number option"
  reasoningTokens :: "number option"
  totalCost :: number

datatype ApiStreamChunk = Text string | Usage usage_event

text \<open>
  A chunk of the provider's stream. \<open>chunk_error\<close> is \<open>Some\<close> when the chunk has an
  \<open>error\<close> member (\<open>"error" in chunk\<close>), read as \<open>{ message?: string; code?: number }\<close>.
\<close>

record in_band_error =
  error_message :: "string option"
  error_code :: "number option"

record delta =
  content :: "string option"

record choice =
  choice_delta :: "delta option"

record chunk =
  chunk_error :: "in_band_error option"
  choices :: "choice list"
  usage :: "CompletionUsage option"

text \<open>The stream hands over a chunk, or throws (a transport failure) and ends.\<close>

datatype stream_item = Chunk chunk | Throw thrown

text \<open>The template \<open>`CometAPI Error ${error?.code}: ${error?.message}`\<close>.\<close>

definition in_band_message :: "'b builtins_scheme \<Rightarrow> in_band_error \<Rightarrow> string" where
  "in_band_message env error =
     ''CometAPI Error ''
       @ (case error_code error of None \<Rightarrow> ''undefined'' | Some c \<Rightarrow> number_to_string env c)
       @ '': ''
       @ (case error_message error of None \<Rightarrow> ''undefined'' | Some m \<Rightarrow> m)"

text \<open>
  The \<open>for await\<close> loop inside the \<open>try\<close>: the events yielded, and either the value
  thrown inside the loop or the last usage seen when the stream ends.
\<close>

fun iterate ::
  "'b builtins_scheme \<Rightarrow> stream_item list \<Rightarrow> CompletionUsage option
     \<Rightarrow> ApiStreamChunk list \<times> (thrown + CompletionUsage option)" where
  "iterate env [] lastUsage = ([], Inr lastUsage)"
| "iterate env (Throw e # rest) lastUsage = ([], Inl e)"
| "iterate env (Chunk chunk # rest) lastUsage =
     (case chunk_error chunk of
        Some error \<Rightarrow> ([], Inl (new_Error (in_band_message env error)))
      | None \<Rightarrow>
          (let delta = (case choices chunk of [] \<Rightarrow> None | c # _ \<Rightarrow> choice_delta c);
               yielded =
                 (case delta of
                    None \<Rightarrow> []
                  | Some d \<Rightarrow>
                      (case content d of
                         None \<Rightarrow> []
                       | Some t \<Rightarrow> if t = [] then [] else [Text t]));
               lastUsage' = (case usage chunk of Some u \<Rightarrow> Some u | None \<Rightarrow> lastUsage);
               (events, result) = iterate env rest lastUsage'
           in (yielded @ events, result)))"

definition usage_event_of :: "CompletionUsage \<Rightarrow> usage_event" where
  "usage_event_of lastUsage =
     \<lparr>inputTokens = number_or (prompt_tokens lastUsage) (js_int 0),
      outputTokens = number_or (completion_tokens lastUsage) (js_int 0),
      cacheReadTokens =
        (case usage_prompt_tokens_details lastUsage of None \<Rightarrow> None | Some d \<Rightarrow> cached_tokens d),
      reasoningTokens =
        (case usage_completion_tokens_details lastUsage of
           None \<Rightarrow> None
         | Some d \<Rightarrow> reasoning_tokens d),
      totalCost = getTotalCost lastUsage\<rparr>"

subsection \<open>The readable error message\<close>

text \<open>
  \<open>error?.code\<close>, \<open>error?.message\<close> and \<open>error.error\<close>. No primitive and no array has
  a property of one of these names; a plain object has it when it is a member of its
  own. \<open>error.error\<close>, which has no \<open>?.\<close>, throws a TypeError (\<open>None\<close>) on \<open>undefined\<close>
  and \<open>null\<close>. \<open>code === k\<close> is for a number literal \<open>k\<close>.
\<close>

definition thrown_code :: "thrown \<Rightarrow> jsval" where
  "thrown_code error =
     (case error of
        ThrownError e \<Rightarrow> err_code e
      | ThrownObject kvs \<Rightarrow> member kvs ''code''
      | _ \<Rightarrow> None)"

definition thrown_message :: "thrown \<Rightarrow> jsval" where
  "thrown_message error =
     (case error of
        ThrownError e \<Rightarrow> Some (JStr (err_message e))
      | ThrownObject kvs \<Rightarrow> member kvs ''message''
      | _ \<Rightarrow> None)"

definition thrown_error :: "thrown \<Rightarrow> jsval option" where
  "thrown_error error =
     (case error of
        ThrownUndefined \<Rightarrow> None
      | ThrownNull \<Rightarrow> None
      | ThrownError e \<Rightarrow> Some (err_error e)
      | ThrownObject kvs \<Rightarrow> Some (member kvs ''error'')
      | _ \<Rightarrow> Some None)"

definition is_code :: "jsval \<Rightarrow> int \<Rightarrow> bool" where
  "is_code v k = (case v of Some (JNum n) \<Rightarrow> number_strict_eq n (js_int k) | _ \<Rightarrow> False)"

text \<open>\<open>Error.prototype.toString\<close>.\<close>

definition error_toString :: "js_error \<Rightarrow> string" where
  "error_toString e =
     (if err_name e = [] then err_message e
      else if err_message e = [] then err_name e
      else err_name e @ '': '' @ err_message e)"

text \<open>
  ToString on a caught value, \<open>None\<close> when it throws a TypeError: a Symbol has no
  conversion to a string, and a plain object or an array is converted as JSON data is.
\<close>

definition thrown_to_string :: "'b builtins_scheme \<Rightarrow> thrown \<Rightarrow> string option" where
  "thrown_to_string env error =
     (case error of
        ThrownUndefined \<Rightarrow> Some ''undefined''
      | ThrownNull \<Rightarrow> Some ''null''
      | ThrownBoolean b \<Rightarrow> Some (if b then ''true'' else ''false'')
      | ThrownNumber n \<Rightarrow> Some (number_to_string env n)
      | ThrownBigInt k \<Rightarrow> Some (if k < 0 then ''-'' @ digits (nat (- k)) else digits (nat k))
      | ThrownString s \<Rightarrow> Some s
      | ThrownSymbol \<Rightarrow> None
      | ThrownError e \<Rightarrow> Some (error_toString e)
      | ThrownObject kvs \<Rightarrow> json_to_string env (JObj kvs)
      | ThrownArray xs \<Rightarrow> json_to_string env (JArr xs))"

text \<open>
  The text of \<open>${error?.message || error}\<close>: the message when it is truthy, the caught
  value itself otherwise, converted to a string; \<open>None\<close> when that conversion throws.
\<close>

definition message_or_error :: "'b builtins_scheme \<Rightarrow> thrown \<Rightarrow> string option" where
  "message_or_error env error =
     (if truthy (thrown_message error) then jsval_to_string env (thrown_message error)
      else thrown_to_string env error)"

definition is_nullish :: "jsval \<Rightarrow> bool" where
  "is_nullish v = (v = None \<or> v = Some JNull)"

text \<open>
  \<open>parsedJson?.error?.details.map((detail) => detail.retryDelay).filter((r) => r)[0]\<close>:
  \<open>None\<close> when it throws a TypeError, \<open>Some\<close> of the value otherwise. Either \<open>?.\<close> cuts
  the whole chain short with \<open>undefined\<close>; \<open>.map\<close> throws unless \<open>details\<close> is an array,
  and the callback throws on a \<open>null\<close> element.
\<close>

definition retry_delays :: "jsval \<Rightarrow> jsval list option" where
  "retry_delays details =
     (case details of
        Some (JArr ds) \<Rightarrow> those (map (\<lambda>detail. get_prop (Some detail) ''retryDelay'') ds)
      | _ \<Rightarrow> None)"

definition first_truthy :: "jsval list \<Rightarrow> jsval" where
  "first_truthy rs = (case filter truthy rs of [] \<Rightarrow> None | r # _ \<Rightarrow> r)"

definition retryAfter_of :: "json \<Rightarrow> jsval option" where
  "retryAfter_of parsedJson =
     (if is_nullish (Some parsedJson) then Some None
      else
        let err = get_prop_opt (Some parsedJson) ''error''
        in if is_nullish err then Some None
           else
             do {
               details \<leftarrow> get_prop err ''details'';
               rs \<leftarrow> retry_delays details;
               Some (first_truthy rs)
             })"

text \<open>
  The \<open>try\<close> block: \<open>Some s\<close> when it returns the message \<open>s\<close>, \<open>None\<close> when it throws
  (a TypeError of a property access or of a conversion to string, the SyntaxError of
  \<open>JSON.parse\<close>) or ends without returning; the empty \<open>catch\<close> makes no difference
  between the two.
\<close>

definition try_retry_message :: "'b builtins_scheme \<Rightarrow> thrown \<Rightarrow> string option" where
  "try_retry_message env error =
     do {
       body \<leftarrow> thrown_error error;
       metadata \<leftarrow> get_prop body ''metadata'';
       text \<leftarrow> jsval_to_string env (get_prop_opt metadata ''raw'');
       parsedJson \<leftarrow> JSON_parse env text;
       retryAfter \<leftarrow> retryAfter_of parsedJson;
       if truthy retryAfter then
         do {
           t \<leftarrow> jsval_to_string env retryAfter;
           Some (''Rate limit exceeded, try again in '' @ t @ ''.'')
         }
       else None
     }"

text \<open>
  The transform: \<open>Some\<close> of the string it returns, \<open>None\<close> when it throws. The two
  template literals that convert \<open>error?.message || error\<close> stand outside the \<open>try\<close>
  block, so the TypeError of a conversion that fails there leaves the function.
\<close>

definition makeCometAPIErrorReadable :: "'b builtins_scheme \<Rightarrow> thrown \<Rightarrow> string option" where
  "makeCometAPIErrorReadable env error =
     (if \<not> is_code (thrown_code error) 429 \<and> \<not> is_code (thrown_code error) 418 then
        map_option (\<lambda>t. ''CometAPI Error: '' @ t) (message_or_error env error)
      else
        (case try_retry_message env error of
           Some s \<Rightarrow> Some s
         | None \<Rightarrow>
             map_option (\<lambda>t. ''Rate limit exceeded, try again later.'' @ [CHR 0x0A] @ t)
               (message_or_error env error)))"

subsection \<open>Requests\<close>

text \<open>
  What \<open>fetchModel\<close> hands to both entry points: the identifier and the parameters
  \<open>getModelParams\<close> derived, each of which may be \<open>undefined\<close>.
\<close>

record resolved_model =
  model_ident :: string
  model_maxTokens :: "number option"
  model_temperature :: "number option"

text \<open>
  A message of the request: one the handler builds itself, or one the translator
  \<open>convertToOpenAiMessages\<close> returned.
\<close>

datatype 'm chat_message = RoleContent string string | Converted 'm

text \<open>
  The request body. A member is \<open>None\<close> when the object has no such key or the key holds
  \<open>undefined\<close>: neither is written to the JSON body.
\<close>

record 'm ChatCompletionCreateParams =
  model :: string
  max_tokens :: "number option"
  temperature :: "number option"
  messages :: "'m chat_message list"
  stream :: bool
  stream_options_include_usage :: "bool option"

text \<open>\<open>...(maxTokens && maxTokens > 0 && { max_tokens: maxTokens })\<close>.\<close>

definition spread_max_tokens :: "number option \<Rightarrow> number option" where
  "spread_max_tokens mt =
     (case mt of
        None \<Rightarrow> None
      | Some n \<Rightarrow> if number_truthy n \<and> js_positive n then Some n else None)"

definition streamParams ::
  "('h \<Rightarrow> 'm list) \<Rightarrow> resolved_model \<Rightarrow> string \<Rightarrow> 'h \<Rightarrow> 'm ChatCompletionCreateParams" where
  "streamParams convertToOpenAiMessages resolved systemPrompt history =
     \<lparr>model = model_ident resolved,
      max_tokens = spread_max_tokens (model_maxTokens resolved),
      temperature = model_temperature resolved,
      messages = RoleContent ''system'' systemPrompt # map Converted (convertToOpenAiMessages history),
      stream = True,
      stream_options_include_usage = Some True\<rparr>"

definition promptParams :: "resolved_model \<Rightarrow> string \<Rightarrow> 'm ChatCompletionCreateParams" where
  "promptParams resolved prompt =
     \<lparr>model = model_ident resolved,
      max_tokens = model_maxTokens resolved,
      temperature = model_temperature resolved,
      messages = [RoleContent ''user'' prompt],
      stream = False,
      stream_options_include_usage = None\<rparr>"

subsection \<open>The two entry points\<close>

text \<open>
  A run of the generator \<open>createMessage\<close> to its end: the request it sent, the events it
  yielded in order, and the value it threw, if any. \<open>create\<close> is the client's
  \<open>chat.completions.create\<close>: it rejects, or resolves to the stream. The \<open>catch\<close> clause
  throws a new Error with the readable message, or lets through the TypeError of
  \<open>makeCometAPIErrorReadable\<close>.
\<close>

record 'm generator_run =
  sent :: "'m ChatCompletionCreateParams"
  events :: "ApiStreamChunk list"
  raised :: "thrown option"

definition createMessage ::
  "'b builtins_scheme \<Rightarrow> ('h \<Rightarrow> 'm list)
     \<Rightarrow> ('m ChatCompletionCreateParams \<Rightarrow> thrown + stream_item list)
     \<Rightarrow> resolved_model \<Rightarrow> string \<Rightarrow> 'h \<Rightarrow> 'm generator_run" where
  "createMessage env convertToOpenAiMessages create resolved systemPrompt history =
     (let completionParams = streamParams convertToOpenAiMessages resolved systemPrompt history
      in case create completionParams of
           Inl e \<Rightarrow> \<lparr>sent = completionParams, events = [], raised = Some e\<rparr>
         | Inr source \<Rightarrow>
             (case iterate env source None of
                (yielded, Inl error) \<Rightarrow>
                  \<lparr>sent = completionParams, events = yielded,
                   raised =
                     Some (case makeCometAPIErrorReadable env error of
                             Some errorMessage \<Rightarrow> new_Error errorMessage
                           | None \<Rightarrow> TypeError env)\<rparr>
              | (yielded, Inr lastUsage) \<Rightarrow>
                  \<lparr>sent = completionParams,
                   events =
                     yielded @
                       (case lastUsage of None \<Rightarrow> [] | Some u \<Rightarrow> [Usage (usage_event_of u)]),
                   raised = None\<rparr>))"

text \<open>The single-shot response: an in-band error, or choices with a message each.\<close>

record response_message =
  message_content :: "string option"

record response_choice =
  choice_message :: "response_message option"

record completion_response =
  response_error :: "in_band_error option"
  response_choices :: "response_choice list"

definition completePrompt ::
  "'b builtins_scheme \<Rightarrow> ('m ChatCompletionCreateParams \<Rightarrow> thrown + completion_response)
     \<Rightarrow> resolved_model \<Rightarrow> string \<Rightarrow> 'm ChatCompletionCreateParams \<times> (thrown + string)" where
  "completePrompt env create resolved prompt =
     (let completionParams = promptParams resolved prompt
      in case create completionParams of
           Inl e \<Rightarrow> (completionParams, Inl e)
         | Inr response \<Rightarrow>
             (case response_error response of
                Some error \<Rightarrow> (completionParams, Inl (new_Error (in_band_message env error)))
              | None \<Rightarrow>
                  (completionParams,
                   Inr (string_or
                          (case response_choices response of
                             [] \<Rightarrow> None
                           | c # _ \<Rightarrow>
                               (case choice_message c of
                                  None \<Rightarrow> None
                                | Some m \<Rightarrow> message_content m))
                          []))))"

section \<open>Notions the properties are stated with\<close>

text \<open>
  The remote fetch failed: the request was rejected (network error, timeout), the status
  is not a 2xx one, the body is not JSON, or the body does not fit the response schema.
\<close>

definition fetch_failed :: "thrown + http_response \<Rightarrow> bool" where
  "fetch_failed outcome =
     (case outcome of
        Inl e \<Rightarrow> True
      | Inr response \<Rightarrow>
          \<not> ok response \<or>
          (case json_body response of
             Inl e \<Rightarrow> True
           | Inr data \<Rightarrow> cometApiModelsResponseSchema data = None))"

text \<open>
  The non-empty text delta a chunk carries (in the first choice, the one the handler
  reads), and the usage of the last chunk of a sequence that carries one.
\<close>

definition text_delta :: "chunk \<Rightarrow> string option" where
  "text_delta c =
     (case choices c of
        [] \<Rightarrow> None
      | first # _ \<Rightarrow>
          (case choice_delta first of
             None \<Rightarrow> None
           | Some d \<Rightarrow>
               (case content d of
                  None \<Rightarrow> None
                | Some t \<Rightarrow> if t = [] then None else Some t)))"

fun captured_usage :: "chunk list \<Rightarrow> CompletionUsage option" where
  "captured_usage [] = None"
| "captured_usage (c # cs) =
     (case captured_usage cs of Some u \<Rightarrow> Some u | None \<Rightarrow> usage c)"

text \<open>
  A number of the binary64 format in the normal form of \<open>number\<close>, and a number as JSON
  text can denote it: any of them but NaN.
\<close>

definition is_double :: "number \<Rightarrow> bool" where
  "is_double x =
     (case x of
        Fin m e \<Rightarrow>
          (m = 0 \<and> e = 0)
          \<or> (2 ^ 52 \<le> \<bar>m\<bar> \<and> \<bar>m\<bar> < 2 ^ 53 \<and> - 1074 \<le> e \<and> e \<le> 971)
          \<or> (0 < \<bar>m\<bar> \<and> \<bar>m\<bar> < 2 ^ 52 \<and> e = - 1074)
      | _ \<Rightarrow> True)"

definition json_number :: "number \<Rightarrow> bool" where
  "json_number x = (is_double x \<and> x \<noteq> NaN)"

text \<open>An optional number, \<open>0\<close> when it is absent.\<close>

definition default_zero :: "number option \<Rightarrow> number" where
  "default_zero x = (case x of None \<Rightarrow> js_int 0 | Some n \<Rightarrow> n)"

text \<open>
  The nested raw JSON payload of an error (\<open>error.error.metadata.raw\<close>, a string), the
  \<open>error.details\<close> array of the parsed payload, and the \<open>retryDelay\<close> of one of its
  elements.
\<close>

definition body_raw :: "jsval \<Rightarrow> string option" where
  "body_raw body =
     (case body of
        Some (JObj members) \<Rightarrow>
          (case member members ''metadata'' of
             Some (JObj md) \<Rightarrow>
               (case member md ''raw'' of Some (JStr s) \<Rightarrow> Some s | _ \<Rightarrow> None)
           | _ \<Rightarrow> None)
      | _ \<Rightarrow> None)"

definition raw_payload :: "thrown \<Rightarrow> string option" where
  "raw_payload error =
     (case error of
        ThrownError e \<Rightarrow> body_raw (err_error e)
      | ThrownObject kvs \<Rightarrow> body_raw (member kvs ''error'')
      | _ \<Rightarrow> None)"

definition payload_details :: "json \<Rightarrow> json list option" where
  "payload_details parsed =
     (case parsed of
        JObj members \<Rightarrow>
          (case member members ''error'' of
             Some (JObj err) \<Rightarrow>
               (case member err ''details'' of Some (JArr ds) \<Rightarrow> Some ds | _ \<Rightarrow> None)
           | _ \<Rightarrow> None)
      | _ \<Rightarrow> None)"

definition detail_retryDelay :: "json \<Rightarrow> jsval" where
  "detail_retryDelay detail = (case detail of JObj kvs \<Rightarrow> member kvs ''retryDelay'' | _ \<Rightarrow> None)"

section \<open>The number model\<close>

subsection \<open>Known values\<close>

text \<open>
  The literals \<open>0.1\<close> and \<open>0.7\<close> as binary64 values, the sum \<open>0.1 + 0.2\<close> that is not
  \<open>0.3\<close>, the first whole number that is not a number (\<open>2 ^ 53 + 1\<close>), the overflow half
  a step above the largest finite number, and the smallest subnormal number.
\<close>

lemma binary64_literals:
  "round_ratio 1 10 = Fin 7205759403792794 (- 56)"
  "round_ratio 7 10 = Fin 6305039478318694 (- 53)"
  "js_int 1 = Fin 4503599627370496 (- 52)"
  by code_simp+

lemma binary64_sum_is_rounded:
  "js_add (round_ratio 1 10) (round_ratio 2 10) = round_ratio 30000000000000004 100000000000000000"
  "js_add (round_ratio 1 10) (round_ratio 2 10) \<noteq> round_ratio 3 10"
  "js_int (2 ^ 53 + 1) = js_int (2 ^ 53)"
  by code_simp+

lemma binary64_range:
  "round_ratio (2 ^ 1024 - 2 ^ 970) 1 = PosInf"
  "js_add PosInf NegInf = NaN"
  "round_ratio 1 (2 ^ 1074) = Fin 1 (- 1074)"
  "round_ratio 1 (2 ^ 1075) = Fin 0 0"
  by code_simp+

subsection \<open>Rounding stays in the format\<close>

text \<open>
  The binary logarithm and the rounded mantissa are within their bounds, so that every
  number read from a fraction, and every sum, is a number of the format in normal form.
\<close>

lemma bitlen_powi:
  assumes "0 < x"
  shows "2 powi (bitlen x - 1) \<le> real_of_int x" and "real_of_int x < 2 powi (bitlen x)"
proof -
  from bitlen_bounds [OF assms] have a: "2 ^ nat (bitlen x - 1) \<le> x" and b: "x < 2 ^ nat (bitlen x)"
    by simp_all
  have ge: "1 \<le> bitlen x" using assms by (simp add: bitlen_alt_def)
  from a have "real_of_int (2 ^ nat (bitlen x - 1)) \<le> real_of_int x"
    by (simp only: of_int_le_iff)
  then show "2 powi (bitlen x - 1) \<le> real_of_int x"
    using ge by (simp add: power_int_def)
  from b have "real_of_int x < real_of_int (2 ^ nat (bitlen x))"
    by (simp only: of_int_less_iff)
  then show "real_of_int x < 2 powi (bitlen x)"
    using ge by (simp add: power_int_def)
qed

lemma floor_log2_test:
  "(if 0 \<le> t then d * 2 ^ nat t \<le> a else d \<le> a * 2 ^ nat (- t))
     \<longleftrightarrow> real_of_int d * 2 powi t \<le> real_of_int a"
proof (cases "0 \<le> t")
  case True
  have "d * 2 ^ nat t \<le> a \<longleftrightarrow> real_of_int (d * 2 ^ nat t) \<le> real_of_int a"
    by (simp only: of_int_le_iff)
  with True show ?thesis by (simp add: power_int_def)
next
  case False
  have "d \<le> a * 2 ^ nat (- t) \<longleftrightarrow> real_of_int d \<le> real_of_int (a * 2 ^ nat (- t))"
    by (simp only: of_int_le_iff)
  with False show ?thesis by (simp add: power_int_def field_simps)
qed

lemma floor_log2_bounds:
  assumes "0 < a" and "0 < d"
  shows "real_of_int d * 2 powi (floor_log2 a d) \<le> real_of_int a"
    and "real_of_int a < real_of_int d * 2 powi (floor_log2 a d + 1)"
proof -
  let ?t = "bitlen a - bitlen d"
  note A = bitlen_powi [OF assms(1)] and D = bitlen_powi [OF assms(2)]
  have dpos: "0 < real_of_int d" using assms by simp
  have up: "real_of_int a < real_of_int d * 2 powi (?t + 1)"
  proof -
    have "real_of_int a < 2 powi (bitlen a)" by (rule A)
    also have "\<dots> = 2 powi (bitlen d - 1) * 2 powi (?t + 1)"
      by (simp add: power_int_add [symmetric])
    also have "\<dots> \<le> real_of_int d * 2 powi (?t + 1)"
      using D(1) by (intro mult_right_mono) simp_all
    finally show ?thesis .
  qed
  have low: "real_of_int d * 2 powi (?t - 1) \<le> real_of_int a"
  proof -
    have "real_of_int d * 2 powi (?t - 1) \<le> 2 powi (bitlen d) * 2 powi (?t - 1)"
      using D(2) by (intro mult_right_mono) simp_all
    also have "\<dots> = 2 powi (bitlen a - 1)"
      by (simp add: power_int_add [symmetric])
    also have "\<dots> \<le> real_of_int a" by (rule A)
    finally show ?thesis .
  qed
  show "real_of_int d * 2 powi (floor_log2 a d) \<le> real_of_int a"
    using low by (simp add: floor_log2_def Let_def floor_log2_test)
  show "real_of_int a < real_of_int d * 2 powi (floor_log2 a d + 1)"
    using up by (auto simp: floor_log2_def Let_def floor_log2_test not_le)
qed

lemma round_half_even_bounds:
  assumes "0 < den" and "lo * den \<le> num" and "num \<le> hi * den"
  shows "lo \<le> round_half_even num den" and "round_half_even num den \<le> hi"
proof -
  define q where "q = num div den"
  define r where "r = num mod den"
  have r: "0 \<le> r" "r < den" using assms(1) by (simp_all add: r_def)
  have num: "num = q * den + r" by (simp add: q_def r_def)
  have lo: "lo \<le> q"
  proof (rule ccontr)
    assume "\<not> lo \<le> q"
    then have "q + 1 \<le> lo" by simp
    then have "(q + 1) * den \<le> lo * den" using assms(1) by (intro mult_right_mono) simp_all
    then have "q * den + den \<le> lo * den" by (simp add: algebra_simps)
    with assms(2) num r show False by linarith
  qed
  have hi: "q \<le> hi"
  proof (rule ccontr)
    assume "\<not> q \<le> hi"
    then have "hi + 1 \<le> q" by simp
    then have "(hi + 1) * den \<le> q * den" using assms(1) by (intro mult_right_mono) simp_all
    then have "hi * den + den \<le> q * den" by (simp add: algebra_simps)
    with assms(3) num r assms(1) show False by linarith
  qed
  have rhe: "round_half_even num den
      = (if 2 * r < den then q else if den < 2 * r then q + 1 else if even q then q else q + 1)"
    by (simp add: round_half_even_def Let_def q_def r_def)
  show "lo \<le> round_half_even num den"
    using lo by (simp add: rhe)
  show "round_half_even num den \<le> hi"
  proof (cases "q = hi")
    case True
    with assms(3) num r have "r = 0" by simp
    with True assms(1) show ?thesis by (simp add: rhe)
  next
    case False
    with hi have "q + 1 \<le> hi" by simp
    then show ?thesis by (simp add: rhe)
  qed
qed


lemma mantissa_bounds:
  assumes d: "0 < d"
    and lo: "real_of_int lo * (real_of_int d * 2 powi E) \<le> real_of_int a"
    and hi: "real_of_int a \<le> real_of_int hi * (real_of_int d * 2 powi E)"
  shows "lo \<le> (if 0 \<le> E then round_half_even a (d * 2 ^ nat E)
                 else round_half_even (a * 2 ^ nat (- E)) d)"
    and "(if 0 \<le> E then round_half_even a (d * 2 ^ nat E)
          else round_half_even (a * 2 ^ nat (- E)) d) \<le> hi"
proof -
  have both: "lo \<le> (if 0 \<le> E then round_half_even a (d * 2 ^ nat E)
                 else round_half_even (a * 2 ^ nat (- E)) d)
     \<and> (if 0 \<le> E then round_half_even a (d * 2 ^ nat E)
          else round_half_even (a * 2 ^ nat (- E)) d) \<le> hi"
  proof (cases "0 \<le> E")
    case True
    then have p: "(2::real) powi E = 2 ^ nat E" by (simp add: power_int_def)
    have den: "0 < d * 2 ^ nat E" using d by simp
    from lo have "real_of_int (lo * (d * 2 ^ nat E)) \<le> real_of_int a"
      by (simp add: p)
    then have l: "lo * (d * 2 ^ nat E) \<le> a" by (simp only: of_int_le_iff)
    from hi have "real_of_int a \<le> real_of_int (hi * (d * 2 ^ nat E))"
      by (simp add: p)
    then have h: "a \<le> hi * (d * 2 ^ nat E)" by (simp only: of_int_le_iff)
    from round_half_even_bounds [OF den l h] True show ?thesis by simp
  next
    case False
    then have p: "(2::real) powi E = 1 / 2 ^ nat (- E)" by (simp add: power_int_def field_simps)
    have pos: "(0::real) < 2 ^ nat (- E)" by simp
    from lo have "real_of_int lo * real_of_int d \<le> real_of_int a * 2 ^ nat (- E)"
      using pos by (simp add: p field_simps)
    then have "real_of_int (lo * d) \<le> real_of_int (a * 2 ^ nat (- E))" by simp
    then have l: "lo * d \<le> a * 2 ^ nat (- E)" by (simp only: of_int_le_iff)
    from hi have "real_of_int a * 2 ^ nat (- E) \<le> real_of_int hi * real_of_int d"
      using pos by (simp add: p field_simps)
    then have "real_of_int (a * 2 ^ nat (- E)) \<le> real_of_int (hi * d)" by simp
    then have h: "a * 2 ^ nat (- E) \<le> hi * d" by (simp only: of_int_le_iff)
    from round_half_even_bounds [OF d l h] False show ?thesis by simp
  qed
  from both show "lo \<le> (if 0 \<le> E then round_half_even a (d * 2 ^ nat E)
                 else round_half_even (a * 2 ^ nat (- E)) d)" ..
  from both show "(if 0 \<le> E then round_half_even a (d * 2 ^ nat E)
          else round_half_even (a * 2 ^ nat (- E)) d) \<le> hi" ..
qed

lemma round_ratio_is_double:
  assumes d: "0 < d"
  shows "json_number (round_ratio n d)"
proof (cases "n = 0")
  case True
  then show ?thesis by (simp add: round_ratio_def json_number_def is_double_def)
next
  case False
  define a where "a = \<bar>n\<bar>"
  define ex where "ex = floor_log2 a d"
  define E where "E = max ex (- 1022) - 52"
  define M where "M = (if 0 \<le> E then round_half_even a (d * 2 ^ nat E)
                       else round_half_even (a * 2 ^ nat (- E)) d)"
  from False have a: "0 < a" by (simp add: a_def)
  note L = floor_log2_bounds(1) [OF a d, folded ex_def]
    and U = floor_log2_bounds(2) [OF a d, folded ex_def]
  have dpos: "0 < real_of_int d" using d by simp
  have E: "- 1074 \<le> E" by (simp add: E_def)
  have M: "(- 1022 \<le> ex \<longrightarrow> 2 ^ 52 \<le> M \<and> M \<le> 2 ^ 53)
           \<and> (ex < - 1022 \<longrightarrow> 0 \<le> M \<and> M \<le> 2 ^ 52)"
  proof (intro conjI impI)
    assume n: "- 1022 \<le> ex"
    then have e: "E = ex - 52" by (simp add: E_def)
    have p1: "(2::real) powi ex = 2 ^ 52 * 2 powi E"
      by (simp add: e power_int_diff)
    have p2: "(2::real) powi (ex + 1) = 2 ^ 53 * 2 powi E"
      by (simp add: e power_int_diff power_int_add)
    have lo: "real_of_int (2 ^ 52) * (real_of_int d * 2 powi E) \<le> real_of_int a"
      using L by (simp add: p1 mult_ac)
    have hi: "real_of_int a \<le> real_of_int (2 ^ 53) * (real_of_int d * 2 powi E)"
      using U by (simp add: p2 mult_ac)
    from mantissa_bounds [OF d lo hi] show "2 ^ 52 \<le> M" and "M \<le> 2 ^ 53"
      by (simp_all add: M_def)
  next
    assume s: "ex < - 1022"
    then have e: "E = - 1074" by (simp add: E_def)
    have lo: "real_of_int 0 * (real_of_int d * 2 powi E) \<le> real_of_int a"
      using a by simp
    have "(2::real) powi (ex + 1) \<le> 2 powi (- 1022)"
      using s by (intro power_int_increasing) simp_all
    also have "(2::real) powi (- 1022) = 2 powi (52 + E)"
      by (simp only: e) simp
    also have "\<dots> = 2 powi 52 * 2 powi E"
      by (rule power_int_add) simp
    also have "(2::real) powi 52 = 2 ^ 52"
      by (simp add: power_int_def)
    finally have "real_of_int d * 2 powi (ex + 1) \<le> real_of_int d * (2 ^ 52 * 2 powi E)"
      using dpos by (intro mult_left_mono) simp_all
    with U have hi: "real_of_int a \<le> real_of_int (2 ^ 52) * (real_of_int d * 2 powi E)"
      by (simp add: mult_ac)
    from mantissa_bounds [OF d lo hi] show "0 \<le> M" and "M \<le> 2 ^ 52"
      by (simp_all add: M_def)
  qed
  have rr: "round_ratio n d
      = (case (if M = 2 ^ 53 then (2 ^ 52, E + 1) else (M, E)) of
           (M', E') \<Rightarrow>
             if M' = 0 then Fin 0 0
             else if 971 < E' then (if 0 < n then PosInf else NegInf)
             else Fin (sgn n * M') E')"
    unfolding round_ratio_def Let_def M_def E_def ex_def a_def
    by (simp only: False if_False)
  have sg: "\<And>m. \<bar>sgn n * m\<bar> = \<bar>m\<bar>"
    using False by (simp add: abs_mult)
  show ?thesis
  proof (cases "- 1022 \<le> ex")
    case True
    with M have m: "2 ^ 52 \<le> M" "M \<le> 2 ^ 53" by simp_all
    show ?thesis
      using m E by (auto simp: rr json_number_def is_double_def sg)
  next
    case False
    with M have m: "0 \<le> M" "M \<le> 2 ^ 52" by simp_all
    from False have e: "E = - 1074" by (simp add: E_def)
    show ?thesis
      using m by (auto simp: rr e json_number_def is_double_def sg)
  qed
qed

lemma js_add_is_double: "is_double (js_add x y)"
proof (cases x)
  case x: (Fin m1 e1)
  show ?thesis
  proof (cases y)
    case y: (Fin m2 e2)
    have "json_number (js_add x y)"
      by (simp add: x y js_add_def Let_def round_ratio_is_double)
    then show ?thesis by (simp add: json_number_def)
  qed (simp_all add: x js_add_def is_double_def)
next
  case PosInf
  then show ?thesis by (cases y) (simp_all add: js_add_def is_double_def)
next
  case NegInf
  then show ?thesis by (cases y) (simp_all add: js_add_def is_double_def)
next
  case NaN
  then show ?thesis by (simp add: js_add_def is_double_def)
qed

section \<open>Properties of the catalog resolver\<close>

subsection \<open>Objects as property lists\<close>

lemma map_of_spread: "map_of (spread base over) = map_of base ++ map_of (rev over)"
  unfolding spread_def
proof (induction over arbitrary: base)
  case Nil
  show ?case by simp
next
  case (Cons kv over)
  obtain k v where kv: "kv = (k, v)" by (cases kv)
  show ?case
    by (rule ext) (auto simp: kv Cons.IH update_conv' map_add_def split: option.splits)
qed

lemma keys_spread: "fst ` set (spread base over) = fst ` set base \<union> fst ` set over"
  unfolding spread_def
proof (induction over arbitrary: base)
  case Nil
  show ?case by simp
next
  case (Cons kv over)
  obtain k v where kv: "kv = (k, v)" by (cases kv)
  show ?case by (auto simp: kv Cons.IH dom_update)
qed

lemma map_of_rev_distinct: "distinct (map fst xs) \<Longrightarrow> map_of (rev xs) = map_of xs"
  by (rule map_of_inject_set [THEN iffD2]) (simp_all add: rev_map [symmetric])

subsection \<open>The loop over the descriptors\<close>

lemma keys_addModel:
  "i \<in> fst ` set (addModel p acc d)
     \<Longrightarrow> i \<in> fst ` set acc \<or> (model_id d = i \<and> isTextGenerationModel i)"
  by (auto simp: addModel_def set_property_def dom_update split: if_splits)

lemma keys_foldl_addModel:
  "i \<in> fst ` set (foldl (addModel p) acc ds)
     \<Longrightarrow> i \<in> fst ` set acc \<or> (\<exists>d \<in> set ds. model_id d = i \<and> isTextGenerationModel i)"
proof (induction ds arbitrary: acc)
  case Nil
  then show ?case by simp
next
  case (Cons d ds)
  from Cons.prems have "i \<in> fst ` set (foldl (addModel p) (addModel p acc d) ds)"
    by simp
  from Cons.IH [OF this] keys_addModel [of i p acc d] show ?case
    by auto
qed

lemma distinct_addModel: "distinct (map fst acc) \<Longrightarrow> distinct (map fst (addModel p acc d))"
  by (simp add: addModel_def set_property_def distinct_update)

lemma distinct_foldl_addModel:
  "distinct (map fst acc) \<Longrightarrow> distinct (map fst (foldl (addModel p) acc ds))"
  by (induction ds arbitrary: acc) (simp_all add: distinct_addModel)

lemma map_of_addModel_other:
  "model_id d \<noteq> i \<Longrightarrow> map_of (addModel p acc d) i = map_of acc i"
  by (simp add: addModel_def set_property_def update_conv')

lemma map_of_foldl_addModel_other:
  "\<forall>d \<in> set ds. model_id d \<noteq> i \<Longrightarrow> map_of (foldl (addModel p) acc ds) i = map_of acc i"
  by (induction ds arbitrary: acc) (simp_all add: map_of_addModel_other)

lemma map_of_addModel_same:
  "isTextGenerationModel (model_id d) \<Longrightarrow> model_id d \<noteq> ''__proto__''
     \<Longrightarrow> map_of (addModel p acc d) (model_id d) = Some (modelInfoOf p d)"
  by (simp add: addModel_def set_property_def update_conv')

lemma map_of_foldl_addModel_last:
  assumes "isTextGenerationModel (model_id d)" and "model_id d \<noteq> ''__proto__''"
    and "\<forall>x \<in> set post. model_id x \<noteq> model_id d"
  shows "map_of (foldl (addModel p) acc (pre @ d # post)) (model_id d) = Some (modelInfoOf p d)"
  using assms by (simp add: map_of_foldl_addModel_other map_of_addModel_same)

subsection \<open>The paths through the resolver\<close>

lemma getCometAPIModels_cases:
  "snd (getCometAPIModels s p f opts) = s
     \<or> (\<exists>ds. snd (getCometAPIModels s p f opts) = spread s (foldl (addModel p) [] ds))"
  by (auto simp: getCometAPIModels_def try_fetch_models_def Let_def
      split: sum.splits option.splits prod.splits)

lemma getCometAPIModels_no_key:
  "string_or (case opts of None \<Rightarrow> None | Some x \<Rightarrow> cometApiKey x) [] = []
     \<Longrightarrow> getCometAPIModels s p f opts
           = ([ConsoleWarn ''CometAPI: No API key provided, using static model definitions''], s)"
  by (simp add: getCometAPIModels_def Let_def)

lemma getCometAPIModels_with_key:
  assumes "cometApiKey x = Some k" and "k \<noteq> []"
  shows "getCometAPIModels s p f (Some x)
           = (case try_fetch_models s p f
                     (string_or (cometApiBaseUrl x) ''https://api.cometapi.com/v1'') k of
                (effects, Inr result) \<Rightarrow> (effects, result)
              | (effects, Inl error) \<Rightarrow>
                  (effects @
                     [ConsoleError ''Error fetching CometAPI models:'',
                      ConsoleWarn ''CometAPI: Falling back to static model definitions''],
                   s))"
  using assms by (simp add: getCometAPIModels_def Let_def string_or_def)

lemma try_fetch_models_request:
  "Fetch (models_request b k) \<in> set (fst (try_fetch_models s p f b k))"
  by (simp add: try_fetch_models_def Let_def split: sum.splits option.splits)

lemma try_fetch_models_failed:
  "fetch_failed (f (models_request b k))
     \<Longrightarrow> (\<exists>fx e. try_fetch_models s p f b k = (fx, Inl e))
         \<or> (\<exists>fx. try_fetch_models s p f b k = (fx, Inr s))"
  by (auto simp: try_fetch_models_def fetch_failed_def Let_def split: sum.splits option.splits)

lemma try_fetch_models_success:
  assumes "f (models_request b k) = Inr response" and "ok response"
    and "json_body response = Inr data" and "cometApiModelsResponseSchema data = Some ds"
  shows "snd (try_fetch_models s p f b k) = Inr (spread s (foldl (addModel p) [] ds))"
  using assms by (simp add: try_fetch_models_def Let_def)

lemma not_text_generation_iff:
  "\<not> isTextGenerationModel i \<longleftrightarrow>
     (\<exists>p \<in> set prefixPatterns. prefix p (toLowerCase i))
       \<or> (\<exists>p \<in> set imageGenPatterns. sublist p (toLowerCase i))"
  by (auto simp: isTextGenerationModel_def Let_def list_ex_iff startsWith_def includes_string_def)

lemma static_keys_text_generation:
  assumes "s = cometApiModels_claude_3_5 \<or> s = cometApiModels_3_7"
    and "i \<in> fst ` set s"
  shows "isTextGenerationModel i" and "i \<noteq> ''__proto__''"
proof -
  have a: "isTextGenerationModel ''claude-3-5-sonnet-20241022''" by code_simp
  have b: "isTextGenerationModel ''claude-3-5-haiku-20241022''" by code_simp
  have c: "isTextGenerationModel ''cometapi-3-7-sonnet''" by code_simp
  from assms a b c show "isTextGenerationModel i"
    by (auto simp: cometApiModels_claude_3_5_def cometApiModels_3_7_def)
  from assms show "i \<noteq> ''__proto__''"
    by (auto simp: cometApiModels_claude_3_5_def cometApiModels_3_7_def)
qed

subsection \<open>No credential\<close>

text \<open>
  Claim C6. When no API key is supplied (no options, no \<open>cometApiKey\<close>, or an empty one),
  the resolver returns exactly the static table; it issues no fetch, and what it logs
  is a warning, not an error.
\<close>

theorem no_credential_returns_static_table:
  assumes "case options of
             None \<Rightarrow> True
           | Some opts \<Rightarrow> cometApiKey opts = None \<or> cometApiKey opts = Some []"
  shows "snd (getCometAPIModels cometApiModels parseApiPrice fetch options) = cometApiModels
     \<and> (\<forall>req. Fetch req
           \<notin> set (fst (getCometAPIModels cometApiModels parseApiPrice fetch options)))
     \<and> (\<forall>m. ConsoleError m
           \<notin> set (fst (getCometAPIModels cometApiModels parseApiPrice fetch options)))"
proof -
  from assms have "string_or (case options of None \<Rightarrow> None | Some x \<Rightarrow> cometApiKey x) [] = []"
    by (auto simp: string_or_def split: option.splits)
  then show ?thesis
    by (simp add: getCometAPIModels_no_key)
qed

theorem no_credential_returns_static_table_witness:
  "(case Some \<lparr>cometApiBaseUrl = Some ''https://example.test/v1'', cometApiKey = None,
               cometApiModelId = Some ''gpt-4o''\<rparr> of
      None \<Rightarrow> True
    | Some opts \<Rightarrow> cometApiKey opts = None \<or> cometApiKey opts = Some [])
   \<and> getCometAPIModels cometApiModels_3_7 (\<lambda>price. None)
        (\<lambda>req. Inr \<lparr>status = 200, json_body = Inr (JObj [(''data'', JArr [])])\<rparr>)
        (Some \<lparr>cometApiBaseUrl = Some ''https://example.test/v1'', cometApiKey = None,
               cometApiModelId = Some ''gpt-4o''\<rparr>)
     = ([ConsoleWarn ''CometAPI: No API key provided, using static model definitions''],
        cometApiModels_3_7)"
proof -
  let ?options = "Some \<lparr>cometApiBaseUrl = Some ''https://example.test/v1'', cometApiKey = None,
                         cometApiModelId = Some ''gpt-4o''\<rparr>"
  let ?run = "getCometAPIModels cometApiModels_3_7 (\<lambda>price. None)
        (\<lambda>req. Inr \<lparr>status = 200, json_body = Inr (JObj [(''data'', JArr [])])\<rparr>) ?options"
  have h: "case ?options of
             None \<Rightarrow> True
           | Some opts \<Rightarrow> cometApiKey opts = None \<or> cometApiKey opts = Some []"
    by simp
  from no_credential_returns_static_table [OF h]
  have "snd ?run = cometApiModels_3_7" by blast
  moreover have "fst ?run
      = [ConsoleWarn ''CometAPI: No API key provided, using static model definitions'']"
    by (simp add: getCometAPIModels_def string_or_def)
  ultimately have "?run
      = ([ConsoleWarn ''CometAPI: No API key provided, using static model definitions''],
         cometApiModels_3_7)"
    by (simp add: prod_eq_iff)
  with h show ?thesis by simp
qed

subsection \<open>Failed fetch\<close>

text \<open>
  Claim C3. The resolver returns a catalog on every input (it is a total function: the
  \<open>catch\<close> clause takes whatever the \<open>try\<close> block throws). Whenever every fetch it issued
  failed (rejected request, status outside 200 to 299, body that is not JSON, body that
  does not fit the schema), the catalog is exactly the static table.
\<close>

theorem failed_fetch_returns_static_table:
  assumes "\<forall>req. Fetch req \<in> set (fst (getCometAPIModels cometApiModels parseApiPrice fetch options))
             \<longrightarrow> fetch_failed (fetch req)"
  shows "snd (getCometAPIModels cometApiModels parseApiPrice fetch options) = cometApiModels"
proof (cases "string_or (case options of None \<Rightarrow> None | Some x \<Rightarrow> cometApiKey x) [] = []")
  case True
  then show ?thesis by (simp add: getCometAPIModels_no_key)
next
  case False
  then obtain x k where opts: "options = Some x" and k: "cometApiKey x = Some k" "k \<noteq> []"
    by (auto simp: string_or_def split: option.splits if_splits)
  let ?b = "string_or (cometApiBaseUrl x) ''https://api.cometapi.com/v1''"
  let ?t = "try_fetch_models cometApiModels parseApiPrice fetch ?b k"
  have "Fetch (models_request ?b k)
          \<in> set (fst (getCometAPIModels cometApiModels parseApiPrice fetch options))"
    using try_fetch_models_request [of ?b k cometApiModels parseApiPrice fetch]
    by (auto simp: opts getCometAPIModels_with_key [OF k] split: prod.splits sum.splits)
  with assms have "fetch_failed (fetch (models_request ?b k))" by blast
  then have "(\<exists>fx e. ?t = (fx, Inl e)) \<or> (\<exists>fx. ?t = (fx, Inr cometApiModels))"
    by (rule try_fetch_models_failed)
  then show ?thesis
    by (auto simp: opts getCometAPIModels_with_key [OF k])
qed

theorem failed_fetch_returns_static_table_witness:
  "fetch_failed (Inr \<lparr>status = 503, json_body = Inr JNull\<rparr>)
   \<and> snd (getCometAPIModels cometApiModels_claude_3_5 (\<lambda>price. None)
        (\<lambda>req. Inr \<lparr>status = 503, json_body = Inr JNull\<rparr>)
        (Some \<lparr>cometApiBaseUrl = None, cometApiKey = Some ''sk-test'', cometApiModelId = None\<rparr>))
     = cometApiModels_claude_3_5
   \<and> fetch_failed (Inr \<lparr>status = 200, json_body = Inr (JObj [(''success'', JBool True)])\<rparr>)
   \<and> snd (getCometAPIModels cometApiModels_claude_3_5 (\<lambda>price. None)
        (\<lambda>req. Inr \<lparr>status = 200, json_body = Inr (JObj [(''success'', JBool True)])\<rparr>)
        (Some \<lparr>cometApiBaseUrl = None, cometApiKey = Some ''sk-test'', cometApiModelId = None\<rparr>))
     = cometApiModels_claude_3_5
   \<and> fetch_failed
       (Inr \<lparr>status = 200,
             json_body = Inr (JObj [(''data'', JArr [JObj [(''id'', JNum (js_int 7))]])])\<rparr>)
   \<and> snd (getCometAPIModels cometApiModels_claude_3_5 (\<lambda>price. None)
        (\<lambda>req. Inr \<lparr>status = 200,
                     json_body = Inr (JObj [(''data'', JArr [JObj [(''id'', JNum (js_int 7))]])])\<rparr>)
        (Some \<lparr>cometApiBaseUrl = None, cometApiKey = Some ''sk-test'', cometApiModelId = None\<rparr>))
     = cometApiModels_claude_3_5"
proof -
  have f1: "fetch_failed (Inr \<lparr>status = 503, json_body = Inr JNull\<rparr>)"
    by (simp add: fetch_failed_def ok_def)
  have f2: "fetch_failed (Inr \<lparr>status = 200, json_body = Inr (JObj [(''success'', JBool True)])\<rparr>)"
    by (simp add: fetch_failed_def ok_def member_def required_def)
  have f3: "fetch_failed
       (Inr \<lparr>status = 200,
             json_body = Inr (JObj [(''data'', JArr [JObj [(''id'', JNum (js_int 7))]])])\<rparr>)"
    by (simp add: fetch_failed_def ok_def member_def required_def)
  note inst = failed_fetch_returns_static_table
    [of cometApiModels_claude_3_5 "\<lambda>price. None" _
        "Some \<lparr>cometApiBaseUrl = None, cometApiKey = Some ''sk-test'', cometApiModelId = None\<rparr>"]
  from f1 f2 f3
    inst [of "\<lambda>req. Inr \<lparr>status = 503, json_body = Inr JNull\<rparr>"]
    inst [of "\<lambda>req. Inr \<lparr>status = 200, json_body = Inr (JObj [(''success'', JBool True)])\<rparr>"]
    inst [of "\<lambda>req. Inr \<lparr>status = 200,
                     json_body = Inr (JObj [(''data'', JArr [JObj [(''id'', JNum (js_int 7))]])])\<rparr>"]
  show ?thesis by simp
qed

subsection \<open>The media-type filter\<close>

text \<open>
  Claim C5. An identifier whose lower-cased form starts with one of the filtered
  prefixes (\<open>tts\<close>, \<open>mj_\<close>, \<open>veo\<close>, ...) or contains one of the filtered substrings
  (\<open>dall-e\<close>, \<open>stable-diffusion\<close>, \<open>flux-\<close>, ...) is never a key of the resolved catalog,
  whatever the remote listed; the static table is either of the two shipped ones.
\<close>

theorem filtered_identifier_never_in_catalog:
  assumes "cometApiModels = cometApiModels_claude_3_5 \<or> cometApiModels = cometApiModels_3_7"
    and "(\<exists>p \<in> set prefixPatterns. prefix p (toLowerCase i))
           \<or> (\<exists>p \<in> set imageGenPatterns. sublist p (toLowerCase i))"
  shows "i \<notin> fst ` set (snd (getCometAPIModels cometApiModels parseApiPrice fetch options))"
proof
  let ?r = "snd (getCometAPIModels cometApiModels parseApiPrice fetch options)"
  assume i: "i \<in> fst ` set ?r"
  from assms(2) have no: "\<not> isTextGenerationModel i"
    by (simp add: not_text_generation_iff)
  with static_keys_text_generation(1) [OF assms(1)] have static: "i \<notin> fst ` set cometApiModels"
    by blast
  from getCometAPIModels_cases [of cometApiModels parseApiPrice fetch options]
  show False
  proof
    assume "?r = cometApiModels"
    with i static show False by simp
  next
    assume "\<exists>ds. ?r = spread cometApiModels (foldl (addModel parseApiPrice) [] ds)"
    then obtain ds where "?r = spread cometApiModels (foldl (addModel parseApiPrice) [] ds)" ..
    with i static have "i \<in> fst ` set (foldl (addModel parseApiPrice) [] ds)"
      by (simp add: keys_spread)
    from keys_foldl_addModel [OF this] no show False by simp
  qed
qed

theorem filtered_identifier_never_in_catalog_witness:
  "((\<exists>p \<in> set prefixPatterns. prefix p (toLowerCase ''dall-e-3''))
      \<or> (\<exists>p \<in> set imageGenPatterns. sublist p (toLowerCase ''dall-e-3'')))
   \<and> ((\<exists>p \<in> set prefixPatterns. prefix p (toLowerCase ''TTS-1''))
      \<or> (\<exists>p \<in> set imageGenPatterns. sublist p (toLowerCase ''TTS-1'')))
   \<and> ((\<exists>p \<in> set prefixPatterns. prefix p (toLowerCase ''mj_v6''))
      \<or> (\<exists>p \<in> set imageGenPatterns. sublist p (toLowerCase ''mj_v6'')))
   \<and> fst ` set (snd (getCometAPIModels cometApiModels_claude_3_5 (\<lambda>price. None)
        (\<lambda>req. Inr \<lparr>status = 200,
                     json_body = Inr (JObj [(''data'',
                       JArr [JObj [(''id'', JStr ''dall-e-3'')],
                             JObj [(''id'', JStr ''TTS-1'')],
                             JObj [(''id'', JStr ''gpt-4o'')],
                             JObj [(''id'', JStr ''mj_v6'')]])])\<rparr>)
        (Some \<lparr>cometApiBaseUrl = None, cometApiKey = Some ''sk-test'', cometApiModelId = None\<rparr>)))
     = {''claude-3-5-sonnet-20241022'', ''claude-3-5-haiku-20241022'', ''gpt-4o''}
   \<and> ''dall-e-3'' \<notin> fst ` set (snd (getCometAPIModels cometApiModels_claude_3_5 (\<lambda>price. None)
        (\<lambda>req. Inr \<lparr>status = 200,
                     json_body = Inr (JObj [(''data'',
                       JArr [JObj [(''id'', JStr ''dall-e-3'')],
                             JObj [(''id'', JStr ''TTS-1'')],
                             JObj [(''id'', JStr ''gpt-4o'')],
                             JObj [(''id'', JStr ''mj_v6'')]])])\<rparr>)
        (Some \<lparr>cometApiBaseUrl = None, cometApiKey = Some ''sk-test'', cometApiModelId = None\<rparr>)))"
proof -
  let ?run = "getCometAPIModels cometApiModels_claude_3_5 (\<lambda>price. None)
        (\<lambda>req. Inr \<lparr>status = 200,
                     json_body = Inr (JObj [(''data'',
                       JArr [JObj [(''id'', JStr ''dall-e-3'')],
                             JObj [(''id'', JStr ''TTS-1'')],
                             JObj [(''id'', JStr ''gpt-4o'')],
                             JObj [(''id'', JStr ''mj_v6'')]])])\<rparr>)
        (Some \<lparr>cometApiBaseUrl = None, cometApiKey = Some ''sk-test'', cometApiModelId = None\<rparr>)"
  have "\<not> isTextGenerationModel ''dall-e-3''" by code_simp
  then have h1: "(\<exists>p \<in> set prefixPatterns. prefix p (toLowerCase ''dall-e-3''))
      \<or> (\<exists>p \<in> set imageGenPatterns. sublist p (toLowerCase ''dall-e-3''))"
    by (simp only: not_text_generation_iff)
  have "\<not> isTextGenerationModel ''TTS-1''" by code_simp
  then have h2: "(\<exists>p \<in> set prefixPatterns. prefix p (toLowerCase ''TTS-1''))
      \<or> (\<exists>p \<in> set imageGenPatterns. sublist p (toLowerCase ''TTS-1''))"
    by (simp only: not_text_generation_iff)
  have "\<not> isTextGenerationModel ''mj_v6''" by code_simp
  then have h3: "(\<exists>p \<in> set prefixPatterns. prefix p (toLowerCase ''mj_v6''))
      \<or> (\<exists>p \<in> set imageGenPatterns. sublist p (toLowerCase ''mj_v6''))"
    by (simp only: not_text_generation_iff)
  have keys: "map fst (snd ?run)
      = [''claude-3-5-sonnet-20241022'', ''claude-3-5-haiku-20241022'', ''gpt-4o'']"
    by code_simp
  have "fst ` set (snd ?run) = set (map fst (snd ?run))" by simp
  also have "\<dots> = {''claude-3-5-sonnet-20241022'', ''claude-3-5-haiku-20241022'', ''gpt-4o''}"
    by (simp only: keys) simp
  finally have k: "fst ` set (snd ?run)
      = {''claude-3-5-sonnet-20241022'', ''claude-3-5-haiku-20241022'', ''gpt-4o''}" .
  have "''dall-e-3'' \<notin> fst ` set (snd ?run)"
    by (rule filtered_identifier_never_in_catalog [OF _ h1]) simp
  with h1 h2 h3 k show ?thesis by blast
qed

subsection \<open>Merge precedence\<close>

text \<open>
  Claim C4. With a key, and the static table either of the two shipped ones: when the
  fetch succeeds and the body fits the schema, every key of the static table is a key
  of the result, and for every identifier of the static table that a surviving remote
  descriptor carries, the result's entry is the one synthesized from that descriptor
  (the last one listed with that identifier); when the fetch fails, the result is the
  static table.
\<close>

theorem remote_entry_wins_over_static:
  assumes static: "cometApiModels = cometApiModels_claude_3_5 \<or> cometApiModels = cometApiModels_3_7"
    and key: "cometApiKey opts = Some k" "k \<noteq> []"
  shows
    "(fetch (models_request (string_or (cometApiBaseUrl opts) ''https://api.cometapi.com/v1'') k)
          = Inr response
        \<and> ok response \<and> json_body response = Inr data
        \<and> cometApiModelsResponseSchema data = Some descriptors
      \<longrightarrow> fst ` set cometApiModels
            \<subseteq> fst ` set (snd (getCometAPIModels cometApiModels parseApiPrice fetch (Some opts)))
          \<and> (\<forall>i \<in> fst ` set cometApiModels. \<forall>pre d post.
                descriptors = pre @ d # post \<and> model_id d = i \<and> isTextGenerationModel i
                  \<and> (\<forall>x \<in> set post. model_id x \<noteq> i)
                \<longrightarrow> map_of (snd (getCometAPIModels cometApiModels parseApiPrice fetch (Some opts))) i
                      = Some (modelInfoOf parseApiPrice d)))
     \<and> (fetch_failed
          (fetch (models_request (string_or (cometApiBaseUrl opts) ''https://api.cometapi.com/v1'') k))
        \<longrightarrow> snd (getCometAPIModels cometApiModels parseApiPrice fetch (Some opts)) = cometApiModels)"
proof (intro conjI impI)
  let ?b = "string_or (cometApiBaseUrl opts) ''https://api.cometapi.com/v1''"
  let ?r = "snd (getCometAPIModels cometApiModels parseApiPrice fetch (Some opts))"
  let ?models = "foldl (addModel parseApiPrice) [] descriptors"
  {
    assume ok: "fetch (models_request ?b k) = Inr response
        \<and> ok response \<and> json_body response = Inr data
        \<and> cometApiModelsResponseSchema data = Some descriptors"
    then have "snd (try_fetch_models cometApiModels parseApiPrice fetch ?b k)
                 = Inr (spread cometApiModels ?models)"
      by (simp add: try_fetch_models_success)
    then have r: "?r = spread cometApiModels ?models"
      by (cases "try_fetch_models cometApiModels parseApiPrice fetch ?b k")
        (simp add: getCometAPIModels_with_key [OF key])
    show "fst ` set cometApiModels \<subseteq> fst ` set ?r"
      by (simp add: r keys_spread)
    show "\<forall>i \<in> fst ` set cometApiModels. \<forall>pre d post.
                descriptors = pre @ d # post \<and> model_id d = i \<and> isTextGenerationModel i
                  \<and> (\<forall>x \<in> set post. model_id x \<noteq> i)
                \<longrightarrow> map_of ?r i = Some (modelInfoOf parseApiPrice d)"
    proof (intro ballI allI impI)
      fix i pre d post
      assume i: "i \<in> fst ` set cometApiModels"
        and d: "descriptors = pre @ d # post \<and> model_id d = i \<and> isTextGenerationModel i
                  \<and> (\<forall>x \<in> set post. model_id x \<noteq> i)"
      from static_keys_text_generation(2) [OF static i] have np: "i \<noteq> ''__proto__''" .
      have "distinct (map fst ?models)"
        by (rule distinct_foldl_addModel) simp
      then have "map_of (rev ?models) = map_of ?models"
        by (rule map_of_rev_distinct)
      moreover have "map_of ?models i = Some (modelInfoOf parseApiPrice d)"
        using d np map_of_foldl_addModel_last [of d post parseApiPrice "[]" pre] by auto
      ultimately show "map_of ?r i = Some (modelInfoOf parseApiPrice d)"
        by (simp add: r map_of_spread map_add_def)
    qed
  }
  {
    assume "fetch_failed (fetch (models_request ?b k))"
    then have "(\<exists>fx e. try_fetch_models cometApiModels parseApiPrice fetch ?b k = (fx, Inl e))
                \<or> (\<exists>fx. try_fetch_models cometApiModels parseApiPrice fetch ?b k
                          = (fx, Inr cometApiModels))"
      by (rule try_fetch_models_failed)
    then show "?r = cometApiModels"
      by (auto simp: getCometAPIModels_with_key [OF key])
  }
qed

theorem remote_entry_wins_over_static_witness:
  "cometApiModelsResponseSchema
       (JObj [(''data'', JArr [JObj [(''id'', JStr ''cometapi-3-7-sonnet'')],
                               JObj [(''id'', JStr ''gpt-4o'')]])])
     = Some [\<lparr>model_id = ''cometapi-3-7-sonnet'', model_object = None, created = None,
               owned_by = None, model_name = None, model_description = None,
               context_length = None, model_max_tokens = None, model_architecture = None,
               model_pricing = None\<rparr>,
             \<lparr>model_id = ''gpt-4o'', model_object = None, created = None,
               owned_by = None, model_name = None, model_description = None,
               context_length = None, model_max_tokens = None, model_architecture = None,
               model_pricing = None\<rparr>]
   \<and> isTextGenerationModel ''cometapi-3-7-sonnet''
   \<and> map_of (snd (getCometAPIModels cometApiModels_3_7 (\<lambda>price. None)
        (\<lambda>req. Inr \<lparr>status = 200,
                     json_body = Inr (JObj [(''data'',
                       JArr [JObj [(''id'', JStr ''cometapi-3-7-sonnet'')],
                             JObj [(''id'', JStr ''gpt-4o'')]])])\<rparr>)
        (Some \<lparr>cometApiBaseUrl = None, cometApiKey = Some ''sk-test'', cometApiModelId = None\<rparr>)))
       ''cometapi-3-7-sonnet''
     = Some \<lparr>maxTokens = None, contextWindow = 8192, supportsImages = False,
             supportsPromptCache = False, inputPrice = None, outputPrice = None,
             description = ''cometapi-3-7-sonnet''\<rparr>
   \<and> fetch_failed (Inl (ThrownString ''timeout''))
   \<and> snd (getCometAPIModels cometApiModels_3_7 (\<lambda>price. None)
        (\<lambda>req. Inl (ThrownString ''timeout''))
        (Some \<lparr>cometApiBaseUrl = None, cometApiKey = Some ''sk-test'', cometApiModelId = None\<rparr>))
     = cometApiModels_3_7"
proof -
  let ?opts = "\<lparr>cometApiBaseUrl = None, cometApiKey = Some ''sk-test'', cometApiModelId = None\<rparr>"
  let ?data = "JObj [(''data'', JArr [JObj [(''id'', JStr ''cometapi-3-7-sonnet'')],
                                     JObj [(''id'', JStr ''gpt-4o'')]])]"
  let ?response = "\<lparr>status = 200, json_body = Inr ?data\<rparr>"
  let ?d = "\<lparr>model_id = ''cometapi-3-7-sonnet'', model_object = None, created = None,
               owned_by = None, model_name = None, model_description = None,
               context_length = None, model_max_tokens = None, model_architecture = None,
               model_pricing = None\<rparr>"
  let ?g = "\<lparr>model_id = ''gpt-4o'', model_object = None, created = None,
               owned_by = None, model_name = None, model_description = None,
               context_length = None, model_max_tokens = None, model_architecture = None,
               model_pricing = None\<rparr>"
  have schema: "cometApiModelsResponseSchema ?data = Some [?d, ?g]"
    by (simp add: member_def required_def optional_def)
  have tg: "isTextGenerationModel ''cometapi-3-7-sonnet''"
    by code_simp
  have key: "cometApiKey ?opts = Some ''sk-test''" "''sk-test'' \<noteq> []"
    by simp_all
  have static: "cometApiModels_3_7 = cometApiModels_claude_3_5 \<or> cometApiModels_3_7 = cometApiModels_3_7"
    by simp
  have info: "modelInfoOf (\<lambda>price. None) ?d
      = \<lparr>maxTokens = None, contextWindow = 8192, supportsImages = False,
         supportsPromptCache = False, inputPrice = None, outputPrice = None,
         description = ''cometapi-3-7-sonnet''\<rparr>"
    by code_simp
  have failed: "fetch_failed (Inl (ThrownString ''timeout''))"
    by (simp add: fetch_failed_def)
  have mem: "''cometapi-3-7-sonnet'' \<in> fst ` set cometApiModels_3_7"
    by (simp add: cometApiModels_3_7_def)
  from remote_entry_wins_over_static
    [OF static key, of "\<lambda>req. Inr ?response" ?response ?data "[?d, ?g]" "\<lambda>price. None"]
    schema
  have "\<forall>i \<in> fst ` set cometApiModels_3_7. \<forall>pre d post.
          [?d, ?g] = pre @ d # post \<and> model_id d = i \<and> isTextGenerationModel i
            \<and> (\<forall>x \<in> set post. model_id x \<noteq> i)
          \<longrightarrow> map_of (snd (getCometAPIModels cometApiModels_3_7 (\<lambda>price. None)
                (\<lambda>req. Inr ?response) (Some ?opts))) i
              = Some (modelInfoOf (\<lambda>price. None) d)"
    by (simp add: ok_def)
  with mem have "[?d, ?g] = [] @ ?d # [?g] \<and> model_id ?d = ''cometapi-3-7-sonnet''
            \<and> isTextGenerationModel ''cometapi-3-7-sonnet''
            \<and> (\<forall>x \<in> set [?g]. model_id x \<noteq> ''cometapi-3-7-sonnet'')
          \<longrightarrow> map_of (snd (getCometAPIModels cometApiModels_3_7 (\<lambda>price. None)
                (\<lambda>req. Inr ?response) (Some ?opts))) ''cometapi-3-7-sonnet''
              = Some (modelInfoOf (\<lambda>price. None) ?d)"
    by blast
  with tg have "map_of (snd (getCometAPIModels cometApiModels_3_7 (\<lambda>price. None)
          (\<lambda>req. Inr ?response) (Some ?opts))) ''cometapi-3-7-sonnet''
        = Some (modelInfoOf (\<lambda>price. None) ?d)"
    by simp
  moreover from remote_entry_wins_over_static
    [OF static key, of "\<lambda>req. Inl (ThrownString ''timeout'')" _ _ _ "\<lambda>price. None"] failed
  have "snd (getCometAPIModels cometApiModels_3_7 (\<lambda>price. None)
          (\<lambda>req. Inl (ThrownString ''timeout'')) (Some ?opts)) = cometApiModels_3_7"
    by blast
  ultimately show ?thesis
    using schema tg failed by (simp only: info)
qed

section \<open>Properties of the completion handler\<close>

subsection \<open>The loop over the stream\<close>

lemma iterate_Chunk:
  "chunk_error c = None
     \<Longrightarrow> iterate env (Chunk c # rest) lastUsage
         = (case iterate env rest (case usage c of Some u \<Rightarrow> Some u | None \<Rightarrow> lastUsage) of
              (evs, r) \<Rightarrow> ((case text_delta c of None \<Rightarrow> [] | Some t \<Rightarrow> [Text t]) @ evs, r))"
  by (simp add: text_delta_def Let_def split: list.splits option.splits prod.splits)

declare iterate.simps(3) [simp del]

lemma iterate_events_are_text: "\<exists>texts. fst (iterate env items lastUsage) = map Text texts"
proof (induction items arbitrary: lastUsage)
  case Nil
  show ?case by simp
next
  case (Cons item items)
  show ?case
  proof (cases item)
    case (Throw e)
    then show ?thesis by simp
  next
    case (Chunk c)
    show ?thesis
    proof (cases "chunk_error c")
      case (Some err)
      with Chunk show ?thesis by (simp add: iterate.simps(3))
    next
      case None
      let ?lu = "case usage c of Some u \<Rightarrow> Some u | None \<Rightarrow> lastUsage"
      obtain evs r where it: "iterate env items ?lu = (evs, r)"
        by (cases "iterate env items ?lu")
      from Cons.IH [of ?lu] obtain texts where
        t: "fst (iterate env items ?lu) = map Text texts" ..
      with it have evs: "evs = map Text texts" by simp
      have "fst (iterate env (item # items) lastUsage)
              = map Text (case text_delta c of None \<Rightarrow> [] | Some s \<Rightarrow> [s]) @ map Text texts"
        by (simp add: Chunk iterate_Chunk [OF None] it evs split: option.splits)
      then have "fst (iterate env (item # items) lastUsage)
              = map Text ((case text_delta c of None \<Rightarrow> [] | Some s \<Rightarrow> [s]) @ texts)"
        by simp
      then show ?thesis ..
    qed
  qed
qed

lemma iterate_chunks:
  "\<forall>c \<in> set cs. chunk_error c = None
     \<Longrightarrow> iterate env (map Chunk cs) lastUsage
         = (map Text (List.map_filter text_delta cs),
            Inr (case captured_usage cs of None \<Rightarrow> lastUsage | Some u \<Rightarrow> Some u))"
proof (induction cs arbitrary: lastUsage)
  case Nil
  show ?case by simp
next
  case (Cons c cs)
  then have ih: "\<And>lu. iterate env (map Chunk cs) lu
         = (map Text (List.map_filter text_delta cs),
            Inr (case captured_usage cs of None \<Rightarrow> lu | Some u \<Rightarrow> Some u))"
    and c: "chunk_error c = None"
    by simp_all
  show ?case
    by (simp add: iterate_Chunk [OF c] ih split: option.splits)
qed

lemma iterate_error_chunk:
  assumes "\<forall>p \<in> set pre. chunk_error p = None" and "chunk_error c = Some err"
  shows "iterate env (map Chunk pre @ Chunk c # post) lastUsage
           = (map Text (List.map_filter text_delta pre), Inl (new_Error (in_band_message env err)))"
  using assms(1)
proof (induction pre arbitrary: lastUsage)
  case Nil
  show ?case by (simp add: assms(2) iterate.simps(3))
next
  case (Cons p pre)
  then have ih: "\<And>lu. iterate env (map Chunk pre @ Chunk c # post) lu
           = (map Text (List.map_filter text_delta pre), Inl (new_Error (in_band_message env err)))"
    and p: "chunk_error p = None"
    by simp_all
  show ?case
    by (simp add: iterate_Chunk [OF p] ih split: option.splits)
qed

lemma iterate_throw:
  assumes "\<forall>p \<in> set pre. chunk_error p = None"
  shows "iterate env (map Chunk pre @ Throw e # post) lastUsage
           = (map Text (List.map_filter text_delta pre), Inl e)"
  using assms
proof (induction pre arbitrary: lastUsage)
  case Nil
  show ?case by simp
next
  case (Cons p pre)
  then have ih: "\<And>lu. iterate env (map Chunk pre @ Throw e # post) lu
           = (map Text (List.map_filter text_delta pre), Inl e)"
    and p: "chunk_error p = None"
    by simp_all
  show ?case
    by (simp add: iterate_Chunk [OF p] ih split: option.splits)
qed

lemma iterate_usage_origin:
  "iterate env items lastUsage = (evs, Inr (Some u))
     \<Longrightarrow> lastUsage = Some u \<or> (\<exists>c. Chunk c \<in> set items \<and> usage c = Some u)"
proof (induction items arbitrary: lastUsage evs)
  case Nil
  then show ?case by simp
next
  case (Cons item items)
  show ?case
  proof (cases item)
    case (Throw e)
    with Cons.prems show ?thesis by simp
  next
    case (Chunk c)
    show ?thesis
    proof (cases "chunk_error c")
      case (Some err)
      with Chunk Cons.prems show ?thesis by (simp add: iterate.simps(3))
    next
      case None
      let ?lu = "case usage c of Some u \<Rightarrow> Some u | None \<Rightarrow> lastUsage"
      obtain evs' r where it: "iterate env items ?lu = (evs', r)"
        by (cases "iterate env items ?lu")
      from Cons.prems
      have "snd (iterate env items ?lu) = Inr (Some u)"
        by (simp add: Chunk iterate_Chunk [OF None] it)
      then have "iterate env items ?lu = (fst (iterate env items ?lu), Inr (Some u))"
        by (simp add: prod_eq_iff)
      from Cons.IH [OF this] Chunk show ?thesis
        by (auto split: option.splits)
    qed
  qed
qed

subsection \<open>Runs of the generator\<close>

lemma in_band_message_not_empty: "in_band_message env err \<noteq> []"
  by (simp add: in_band_message_def)

lemma readable_new_Error:
  "msg \<noteq> []
     \<Longrightarrow> makeCometAPIErrorReadable env (new_Error msg) = Some (''CometAPI Error: '' @ msg)"
  by (simp add: makeCometAPIErrorReadable_def new_Error_def thrown_code_def is_code_def
      message_or_error_def thrown_message_def jsval_to_string_def)

lemma createMessage_in_band_error:
  assumes "create (streamParams cv resolved sp h) = Inr (map Chunk pre @ Chunk c # post)"
    and "\<forall>p \<in> set pre. chunk_error p = None"
    and "chunk_error c = Some err"
  shows "createMessage env cv create resolved sp h
           = \<lparr>sent = streamParams cv resolved sp h,
              events = map Text (List.map_filter text_delta pre),
              raised = Some (new_Error (''CometAPI Error: '' @ in_band_message env err))\<rparr>"
  by (simp add: createMessage_def Let_def assms(1) iterate_error_chunk [OF assms(2,3)]
      readable_new_Error in_band_message_not_empty)

text \<open>
  Claim C1. In every run of \<open>createMessage\<close> the events are Text events followed by at
  most one Usage event. When the stream ends without an in-band error and without
  throwing, there is one Text event for each chunk that carries a non-empty text delta,
  in the order of arrival, followed by the Usage event of the last usage captured, if
  any, and nothing is raised. When the stream throws or hands over an in-band error
  chunk, the events are the Text events of the chunks consumed before that, and the
  generator raises. When no chunk carried a usage payload, no Usage event is emitted.
\<close>

theorem createMessage_event_sequence:
  "(\<exists>texts. events (createMessage env cv create resolved sp h) = map Text texts
        \<or> (\<exists>u. events (createMessage env cv create resolved sp h) = map Text texts @ [Usage u]))
   \<and> (create (streamParams cv resolved sp h) = Inr (map Chunk chunks)
        \<and> (\<forall>c \<in> set chunks. chunk_error c = None)
      \<longrightarrow> events (createMessage env cv create resolved sp h)
            = map Text (List.map_filter text_delta chunks)
              @ (case captured_usage chunks of None \<Rightarrow> [] | Some u \<Rightarrow> [Usage (usage_event_of u)])
          \<and> raised (createMessage env cv create resolved sp h) = None)
   \<and> (create (streamParams cv resolved sp h) = Inr (map Chunk pre @ item # post)
        \<and> (\<forall>p \<in> set pre. chunk_error p = None)
        \<and> ((\<exists>e. item = Throw e) \<or> (\<exists>c err. item = Chunk c \<and> chunk_error c = Some err))
      \<longrightarrow> events (createMessage env cv create resolved sp h)
            = map Text (List.map_filter text_delta pre)
          \<and> raised (createMessage env cv create resolved sp h) \<noteq> None)
   \<and> ((\<forall>source c. create (streamParams cv resolved sp h) = Inr source \<and> Chunk c \<in> set source
          \<longrightarrow> usage c = None)
      \<longrightarrow> (\<forall>u. Usage u \<notin> set (events (createMessage env cv create resolved sp h))))"
proof (intro conjI impI)
  let ?run = "createMessage env cv create resolved sp h"
  show "\<exists>texts. events ?run = map Text texts \<or> (\<exists>u. events ?run = map Text texts @ [Usage u])"
  proof (cases "create (streamParams cv resolved sp h)")
    case (Inl e)
    then have "events ?run = map Text []" by (simp add: createMessage_def Let_def)
    then show ?thesis by blast
  next
    case (Inr source)
    obtain evs r where it: "iterate env source None = (evs, r)"
      by (cases "iterate env source None")
    from iterate_events_are_text [of env source None] it
    obtain texts where evs: "evs = map Text texts" by auto
    show ?thesis
    proof (cases r)
      case (Inl error)
      with it have "events ?run = map Text texts"
        by (simp add: createMessage_def Let_def Inr evs)
      then show ?thesis by blast
    next
      case r: (Inr lastUsage)
      show ?thesis
      proof (cases lastUsage)
        case None
        with it r have "events ?run = map Text texts"
          by (simp add: createMessage_def Let_def Inr evs)
        then show ?thesis by blast
      next
        case (Some u)
        with it r have "events ?run = map Text texts @ [Usage (usage_event_of u)]"
          by (simp add: createMessage_def Let_def Inr evs)
        then show ?thesis by blast
      qed
    qed
  qed
next
  let ?run = "createMessage env cv create resolved sp h"
  assume a: "create (streamParams cv resolved sp h) = Inr (map Chunk chunks)
        \<and> (\<forall>c \<in> set chunks. chunk_error c = None)"
  then have it: "iterate env (map Chunk chunks) None
      = (map Text (List.map_filter text_delta chunks), Inr (captured_usage chunks))"
    by (simp add: iterate_chunks split: option.splits)
  from a have c: "create (streamParams cv resolved sp h) = Inr (map Chunk chunks)" by simp
  show "events ?run
            = map Text (List.map_filter text_delta chunks)
              @ (case captured_usage chunks of None \<Rightarrow> [] | Some u \<Rightarrow> [Usage (usage_event_of u)])"
    by (simp add: createMessage_def Let_def c it)
  show "raised ?run = None"
    by (simp add: createMessage_def Let_def c it)
next
  let ?run = "createMessage env cv create resolved sp h"
  assume a: "create (streamParams cv resolved sp h) = Inr (map Chunk pre @ item # post)
        \<and> (\<forall>p \<in> set pre. chunk_error p = None)
        \<and> ((\<exists>e. item = Throw e) \<or> (\<exists>c err. item = Chunk c \<and> chunk_error c = Some err))"
  then have "\<exists>error. iterate env (map Chunk pre @ item # post) None
      = (map Text (List.map_filter text_delta pre), Inl error)"
    by (auto simp: iterate_throw iterate_error_chunk)
  then obtain error where "iterate env (map Chunk pre @ item # post) None
      = (map Text (List.map_filter text_delta pre), Inl error)" ..
  with a have run: "?run = \<lparr>sent = streamParams cv resolved sp h,
      events = map Text (List.map_filter text_delta pre),
      raised = Some (case makeCometAPIErrorReadable env error of
                       Some errorMessage \<Rightarrow> new_Error errorMessage
                     | None \<Rightarrow> TypeError env)\<rparr>"
    by (simp add: createMessage_def Let_def)
  show "events ?run = map Text (List.map_filter text_delta pre)"
    by (simp add: run)
  show "raised ?run \<noteq> None"
    by (simp add: run)
next
  let ?run = "createMessage env cv create resolved sp h"
  assume no: "\<forall>source c. create (streamParams cv resolved sp h) = Inr source \<and> Chunk c \<in> set source
          \<longrightarrow> usage c = None"
  show "\<forall>u. Usage u \<notin> set (events ?run)"
  proof (cases "create (streamParams cv resolved sp h)")
    case (Inl e)
    then show ?thesis by (simp add: createMessage_def Let_def)
  next
    case (Inr source)
    obtain evs r where it: "iterate env source None = (evs, r)"
      by (cases "iterate env source None")
    from iterate_events_are_text [of env source None] it
    obtain texts where evs: "evs = map Text texts" by auto
    show ?thesis
    proof (cases r)
      case (Inl error)
      with it show ?thesis
        by (auto simp: createMessage_def Let_def Inr evs)
    next
      case r: (Inr lastUsage)
      have "lastUsage = None"
      proof (rule ccontr)
        assume "lastUsage \<noteq> None"
        then obtain u where "lastUsage = Some u" by auto
        with it r have "iterate env source None = (evs, Inr (Some u))" by simp
        from iterate_usage_origin [OF this]
        obtain c where "Chunk c \<in> set source" and "usage c = Some u" by auto
        with no Inr show False by auto
      qed
      with it r show ?thesis
        by (auto simp: createMessage_def Let_def Inr evs)
    qed
  qed
qed

theorem createMessage_event_sequence_witness:
  "chunk_error \<lparr>chunk_error = None,
                choices = [\<lparr>choice_delta = Some \<lparr>content = Some ''A''\<rparr>\<rparr>],
                usage = None\<rparr> = None
   \<and> chunk_error \<lparr>chunk_error = None,
                choices = [\<lparr>choice_delta = Some \<lparr>content = Some ''B''\<rparr>\<rparr>],
                usage = Some \<lparr>completion_tokens = Some (js_int 20),
                              usage_completion_tokens_details = None,
                              prompt_tokens = Some (js_int 10),
                              usage_prompt_tokens_details = None,
                              total_tokens = None, cost = None, is_byok = None,
                              usage_cost_details = None\<rparr>\<rparr> = None
   \<and> events (createMessage \<lparr>JSON_parse = \<lambda>s. None, Number_toString = \<lambda>n. [], TypeError_message = []\<rparr> (\<lambda>h. h)
        (\<lambda>params. Inr (map Chunk
           [\<lparr>chunk_error = None,
             choices = [\<lparr>choice_delta = Some \<lparr>content = Some ''A''\<rparr>\<rparr>],
             usage = None\<rparr>,
            \<lparr>chunk_error = None,
             choices = [\<lparr>choice_delta = Some \<lparr>content = Some ''B''\<rparr>\<rparr>],
             usage = Some \<lparr>completion_tokens = Some (js_int 20),
                           usage_completion_tokens_details = None,
                           prompt_tokens = Some (js_int 10),
                           usage_prompt_tokens_details = None,
                           total_tokens = None, cost = None, is_byok = None,
                           usage_cost_details = None\<rparr>\<rparr>]))
        \<lparr>model_ident = ''claude-3-5-sonnet-20241022'', model_maxTokens = Some (js_int 8192),
         model_temperature = Some (js_int 0)\<rparr>
        ''You are a helpful assistant.'' ([] :: string list))
     = [Text ''A'', Text ''B'',
        Usage \<lparr>inputTokens = js_int 10, outputTokens = js_int 20, cacheReadTokens = None,
               reasoningTokens = None, totalCost = js_int 0\<rparr>]
   \<and> events (createMessage \<lparr>JSON_parse = \<lambda>s. None, Number_toString = \<lambda>n. [], TypeError_message = []\<rparr> (\<lambda>h. h)
        (\<lambda>params. Inr (map Chunk
             [\<lparr>chunk_error = None,
               choices = [\<lparr>choice_delta = Some \<lparr>content = Some ''A''\<rparr>\<rparr>],
               usage = None\<rparr>]
           @ Throw (ThrownString ''socket hang up'')
           # [Chunk \<lparr>chunk_error = None,
                     choices = [\<lparr>choice_delta = Some \<lparr>content = Some ''B''\<rparr>\<rparr>],
                     usage = None\<rparr>]))
        \<lparr>model_ident = ''claude-3-5-sonnet-20241022'', model_maxTokens = Some (js_int 8192),
         model_temperature = Some (js_int 0)\<rparr>
        ''You are a helpful assistant.'' ([] :: string list))
     = [Text ''A'']"
proof -
  let ?u = "\<lparr>completion_tokens = Some (js_int 20), usage_completion_tokens_details = None,
             prompt_tokens = Some (js_int 10), usage_prompt_tokens_details = None,
             total_tokens = None, cost = None, is_byok = None, usage_cost_details = None\<rparr>"
  let ?a = "\<lparr>chunk_error = None, choices = [\<lparr>choice_delta = Some \<lparr>content = Some ''A''\<rparr>\<rparr>],
             usage = None\<rparr>"
  let ?b = "\<lparr>chunk_error = None, choices = [\<lparr>choice_delta = Some \<lparr>content = Some ''B''\<rparr>\<rparr>],
             usage = Some ?u\<rparr>"
  have h: "\<forall>c \<in> set [?a, ?b]. chunk_error c = None"
    by simp
  have ev: "usage_event_of ?u
      = \<lparr>inputTokens = js_int 10, outputTokens = js_int 20, cacheReadTokens = None,
         reasoningTokens = None, totalCost = js_int 0\<rparr>"
    by code_simp
  have texts: "List.map_filter text_delta [?a, ?b] = [''A'', ''B'']"
    by (simp add: text_delta_def)
  have last: "captured_usage [?a, ?b] = Some ?u"
    by simp
  from createMessage_event_sequence
    [of "\<lparr>JSON_parse = \<lambda>s. None, Number_toString = \<lambda>n. [], TypeError_message = []\<rparr>" "\<lambda>h. h"
        "\<lambda>params. Inr (map Chunk [?a, ?b])"
        "\<lparr>model_ident = ''claude-3-5-sonnet-20241022'', model_maxTokens = Some (js_int 8192),
          model_temperature = Some (js_int 0)\<rparr>"
        "''You are a helpful assistant.''" "[] :: string list" "[?a, ?b]"] h
  have "events (createMessage \<lparr>JSON_parse = \<lambda>s. None, Number_toString = \<lambda>n. [], TypeError_message = []\<rparr> (\<lambda>h. h)
        (\<lambda>params. Inr (map Chunk [?a, ?b]))
        \<lparr>model_ident = ''claude-3-5-sonnet-20241022'', model_maxTokens = Some (js_int 8192),
         model_temperature = Some (js_int 0)\<rparr>
        ''You are a helpful assistant.'' ([] :: string list))
      = map Text (List.map_filter text_delta [?a, ?b])
          @ (case captured_usage [?a, ?b] of None \<Rightarrow> [] | Some u \<Rightarrow> [Usage (usage_event_of u)])"
    by blast
  with texts last ev have first: "events (createMessage \<lparr>JSON_parse = \<lambda>s. None, Number_toString = \<lambda>n. [], TypeError_message = []\<rparr> (\<lambda>h. h)
        (\<lambda>params. Inr (map Chunk [?a, ?b]))
        \<lparr>model_ident = ''claude-3-5-sonnet-20241022'', model_maxTokens = Some (js_int 8192),
         model_temperature = Some (js_int 0)\<rparr>
        ''You are a helpful assistant.'' ([] :: string list))
      = [Text ''A'', Text ''B'',
         Usage \<lparr>inputTokens = js_int 10, outputTokens = js_int 20, cacheReadTokens = None,
               reasoningTokens = None, totalCost = js_int 0\<rparr>]"
    by simp
  let ?b' = "\<lparr>chunk_error = None, choices = [\<lparr>choice_delta = Some \<lparr>content = Some ''B''\<rparr>\<rparr>],
             usage = None\<rparr>"
  have h': "\<forall>p \<in> set [?a]. chunk_error p = None"
    by simp
  from createMessage_event_sequence
    [where env = "\<lparr>JSON_parse = \<lambda>s. None, Number_toString = \<lambda>n. [], TypeError_message = []\<rparr>" and cv = "\<lambda>h. h"
       and create = "\<lambda>params. Inr (map Chunk [?a] @ Throw (ThrownString ''socket hang up'')
                                    # [Chunk ?b'])"
       and resolved = "\<lparr>model_ident = ''claude-3-5-sonnet-20241022'',
                        model_maxTokens = Some (js_int 8192), model_temperature = Some (js_int 0)\<rparr>"
       and sp = "''You are a helpful assistant.''" and h = "[] :: string list"
       and pre = "[?a]" and item = "Throw (ThrownString ''socket hang up'')"
       and post = "[Chunk ?b']"] h'
  have "events (createMessage \<lparr>JSON_parse = \<lambda>s. None, Number_toString = \<lambda>n. [], TypeError_message = []\<rparr> (\<lambda>h. h)
        (\<lambda>params. Inr (map Chunk [?a] @ Throw (ThrownString ''socket hang up'') # [Chunk ?b']))
        \<lparr>model_ident = ''claude-3-5-sonnet-20241022'', model_maxTokens = Some (js_int 8192),
         model_temperature = Some (js_int 0)\<rparr>
        ''You are a helpful assistant.'' ([] :: string list))
      = map Text (List.map_filter text_delta [?a])"
    by blast
  then have second: "events (createMessage \<lparr>JSON_parse = \<lambda>s. None, Number_toString = \<lambda>n. [], TypeError_message = []\<rparr> (\<lambda>h. h)
        (\<lambda>params. Inr (map Chunk [?a] @ Throw (ThrownString ''socket hang up'') # [Chunk ?b']))
        \<lparr>model_ident = ''claude-3-5-sonnet-20241022'', model_maxTokens = Some (js_int 8192),
         model_temperature = Some (js_int 0)\<rparr>
        ''You are a helpful assistant.'' ([] :: string list))
      = [Text ''A'']"
    by (simp add: text_delta_def)
  from first second show ?thesis
    by simp
qed

subsection \<open>In-band errors\<close>

lemma sublist_prepend: "sublist xs ys \<Longrightarrow> sublist xs (zs @ ys)"
proof -
  assume "sublist xs ys"
  then obtain ps ss where "ys = ps @ xs @ ss"
    by (auto simp: sublist_def)
  then have "zs @ ys = (zs @ ps) @ xs @ ss"
    by simp
  then show ?thesis
    unfolding sublist_def by blast
qed

text \<open>
  Claim C10. When the loop reaches an in-band error chunk with code \<open>c\<close> and message
  \<open>m\<close> (every chunk before it being an ordinary one), the generator raises an Error whose
  message is exactly \<open>CometAPI Error: CometAPI Error c: m\<close>: the Error thrown inside the
  \<open>try\<close> is caught and passed through \<open>makeCometAPIErrorReadable\<close>, which prefixes it again,
  taking its first branch since that Error has no \<open>code\<close>.
\<close>

theorem in_band_error_is_double_prefixed:
  assumes "create (streamParams cv resolved sp h) = Inr (map Chunk pre @ Chunk c # post)"
    and "\<forall>p \<in> set pre. chunk_error p = None"
    and "chunk_error c = Some \<lparr>error_message = Some m, error_code = Some cd\<rparr>"
  shows "raised (createMessage env cv create resolved sp h)
           = Some (new_Error
               (''CometAPI Error: CometAPI Error '' @ number_to_string env cd @ '': '' @ m))
         \<and> thrown_code (new_Error (''CometAPI Error '' @ number_to_string env cd @ '': '' @ m))
           = None
         \<and> makeCometAPIErrorReadable env
               (new_Error (''CometAPI Error '' @ number_to_string env cd @ '': '' @ m))
           = Some (''CometAPI Error: CometAPI Error '' @ number_to_string env cd @ '': '' @ m)"
proof -
  let ?thrown = "''CometAPI Error '' @ number_to_string env cd @ '': '' @ m"
  have "raised (createMessage env cv create resolved sp h)
          = Some (new_Error (''CometAPI Error: '' @ ?thrown))"
    using assms by (simp add: createMessage_in_band_error in_band_message_def)
  moreover have "thrown_code (new_Error ?thrown) = None"
    by (simp add: thrown_code_def new_Error_def)
  moreover have "makeCometAPIErrorReadable env (new_Error ?thrown)
      = Some (''CometAPI Error: '' @ ?thrown)"
    by (rule readable_new_Error) simp
  ultimately show ?thesis
    by simp
qed

theorem in_band_error_is_double_prefixed_witness:
  "raised (createMessage \<lparr>JSON_parse = \<lambda>s. None, Number_toString = \<lambda>n. [], TypeError_message = []\<rparr> (\<lambda>h. h)
        (\<lambda>params. Inr (map Chunk
             [\<lparr>chunk_error = None,
               choices = [\<lparr>choice_delta = Some \<lparr>content = Some ''partial''\<rparr>\<rparr>],
               usage = None\<rparr>]
           @ Chunk \<lparr>chunk_error = Some \<lparr>error_message = Some ''API Error'',
                                        error_code = Some (js_int 500)\<rparr>,
                    choices = [], usage = None\<rparr>
           # [Throw ThrownUndefined]))
        \<lparr>model_ident = ''claude-3-5-sonnet-20241022'', model_maxTokens = None,
         model_temperature = Some (js_int 0)\<rparr>
        ''system'' ([] :: string list))
     = Some (new_Error ''CometAPI Error: CometAPI Error 500: API Error'')"
proof -
  let ?env = "\<lparr>JSON_parse = \<lambda>s. None, Number_toString = \<lambda>n. [], TypeError_message = []\<rparr>"
  let ?p = "\<lparr>chunk_error = None,
             choices = [\<lparr>choice_delta = Some \<lparr>content = Some ''partial''\<rparr>\<rparr>],
             usage = None\<rparr>"
  let ?c = "\<lparr>chunk_error = Some \<lparr>error_message = Some ''API Error'',
                                   error_code = Some (js_int 500)\<rparr>,
             choices = [], usage = None\<rparr>"
  have n: "number_to_string ?env (js_int 500) = ''500''"
    by code_simp
  have h: "\<forall>p \<in> set [?p]. chunk_error p = None"
    by simp
  have c: "chunk_error ?c = Some \<lparr>error_message = Some ''API Error'', error_code = Some (js_int 500)\<rparr>"
    by simp
  have "raised (createMessage ?env (\<lambda>h. h)
        (\<lambda>params. Inr (map Chunk [?p] @ Chunk ?c # [Throw ThrownUndefined]))
        \<lparr>model_ident = ''claude-3-5-sonnet-20241022'', model_maxTokens = None,
         model_temperature = Some (js_int 0)\<rparr>
        ''system'' ([] :: string list))
      = Some (new_Error
          (''CometAPI Error: CometAPI Error '' @ number_to_string ?env (js_int 500) @ '': ''
             @ ''API Error''))"
    using h c
      in_band_error_is_double_prefixed
        [where pre = "[?p]" and c = ?c and post = "[Throw ThrownUndefined]" and env = ?env
           and m = "''API Error''" and cd = "js_int 500" and cv = "\<lambda>h. h"
           and create = "\<lambda>params. Inr (map Chunk [?p] @ Chunk ?c # [Throw ThrownUndefined])"
           and resolved = "\<lparr>model_ident = ''claude-3-5-sonnet-20241022'', model_maxTokens = None,
                            model_temperature = Some (js_int 0)\<rparr>"
           and sp = "''system''" and h = "[] :: string list"]
    by simp
  with n show ?thesis
    by simp
qed

text \<open>
  Claim C2. An in-band error object with code \<open>c\<close> and message \<open>m\<close> makes both entry
  points raise an Error whose message contains the text of \<open>c\<close> and \<open>m\<close>. In the
  streaming path the events are those of the chunks before the error chunk whatever
  follows it, so none when the error chunk comes first.
\<close>

theorem in_band_error_is_raised:
  "(create (streamParams cv resolved sp h) = Inr (map Chunk pre @ Chunk c # post)
      \<and> (\<forall>p \<in> set pre. chunk_error p = None)
      \<and> chunk_error c = Some \<lparr>error_message = Some m, error_code = Some cd\<rparr>
    \<longrightarrow> (\<exists>msg. raised (createMessage env cv create resolved sp h) = Some (new_Error msg)
            \<and> sublist (number_to_string env cd) msg \<and> sublist m msg)
        \<and> events (createMessage env cv create resolved sp h)
            = map Text (List.map_filter text_delta pre)
        \<and> (pre = [] \<longrightarrow> events (createMessage env cv create resolved sp h) = []))
   \<and> (createPrompt (promptParams resolved prompt) = Inr response
      \<and> response_error response = Some \<lparr>error_message = Some m, error_code = Some cd\<rparr>
    \<longrightarrow> (\<exists>msg. snd (completePrompt env createPrompt resolved prompt) = Inl (new_Error msg)
            \<and> sublist (number_to_string env cd) msg \<and> sublist m msg))"
proof (intro conjI impI)
  let ?run = "createMessage env cv create resolved sp h"
  let ?msg = "''CometAPI Error ''
       @ number_to_string env cd @ '': '' @ m"
  have cd: "sublist (number_to_string env cd) ?msg"
    by (rule sublist_appendI)
  have m: "sublist m ?msg"
    using sublist_append_leftI [of m "''CometAPI Error '' @ number_to_string env cd @ '': ''"]
    by simp
  {
    assume a: "create (streamParams cv resolved sp h) = Inr (map Chunk pre @ Chunk c # post)
      \<and> (\<forall>p \<in> set pre. chunk_error p = None)
      \<and> chunk_error c = Some \<lparr>error_message = Some m, error_code = Some cd\<rparr>"
    then have run: "?run = \<lparr>sent = streamParams cv resolved sp h,
              events = map Text (List.map_filter text_delta pre),
              raised = Some (new_Error (''CometAPI Error: ''
                @ in_band_message env \<lparr>error_message = Some m, error_code = Some cd\<rparr>))\<rparr>"
      by (simp add: createMessage_in_band_error)
    have r: "raised ?run = Some (new_Error (''CometAPI Error: '' @ ?msg))"
      by (simp add: run in_band_message_def)
    have "sublist (number_to_string env cd) (''CometAPI Error: '' @ ?msg)"
      using cd by (rule sublist_prepend)
    moreover have "sublist m (''CometAPI Error: '' @ ?msg)"
      using m by (rule sublist_prepend)
    ultimately show "\<exists>msg. raised ?run = Some (new_Error msg)
            \<and> sublist (number_to_string env cd) msg \<and> sublist m msg"
      using r by blast
    show "events ?run = map Text (List.map_filter text_delta pre)"
      by (simp add: run)
    then show "events ?run = []" if "pre = []"
      using that by simp
  }
  {
    assume "createPrompt (promptParams resolved prompt) = Inr response
      \<and> response_error response = Some \<lparr>error_message = Some m, error_code = Some cd\<rparr>"
    then have "snd (completePrompt env createPrompt resolved prompt) = Inl (new_Error ?msg)"
      by (simp add: completePrompt_def Let_def in_band_message_def)
    with cd m show "\<exists>msg. snd (completePrompt env createPrompt resolved prompt) = Inl (new_Error msg)
            \<and> sublist (number_to_string env cd) msg \<and> sublist m msg"
      by blast
  }
qed

theorem in_band_error_is_raised_witness:
  "(\<exists>msg. raised (createMessage \<lparr>JSON_parse = \<lambda>s. None, Number_toString = \<lambda>n. [], TypeError_message = []\<rparr> (\<lambda>h. h)
        (\<lambda>params. Inr (map Chunk []
           @ Chunk \<lparr>chunk_error = Some \<lparr>error_message = Some ''API Error'',
                                        error_code = Some (js_int 500)\<rparr>,
                    choices = [], usage = None\<rparr>
           # [Chunk \<lparr>chunk_error = None,
                     choices = [\<lparr>choice_delta = Some \<lparr>content = Some ''late''\<rparr>\<rparr>],
                     usage = None\<rparr>]))
        \<lparr>model_ident = ''claude-3-5-sonnet-20241022'', model_maxTokens = None,
         model_temperature = Some (js_int 0)\<rparr>
        ''test'' ([] :: string list))
      = Some (new_Error msg)
      \<and> sublist ''500'' msg \<and> sublist ''API Error'' msg)
   \<and> events (createMessage \<lparr>JSON_parse = \<lambda>s. None, Number_toString = \<lambda>n. [], TypeError_message = []\<rparr> (\<lambda>h. h)
        (\<lambda>params. Inr (map Chunk []
           @ Chunk \<lparr>chunk_error = Some \<lparr>error_message = Some ''API Error'',
                                        error_code = Some (js_int 500)\<rparr>,
                    choices = [], usage = None\<rparr>
           # [Chunk \<lparr>chunk_error = None,
                     choices = [\<lparr>choice_delta = Some \<lparr>content = Some ''late''\<rparr>\<rparr>],
                     usage = None\<rparr>]))
        \<lparr>model_ident = ''claude-3-5-sonnet-20241022'', model_maxTokens = None,
         model_temperature = Some (js_int 0)\<rparr>
        ''test'' ([] :: string list))
     = []
   \<and> (\<exists>msg. snd (completePrompt \<lparr>JSON_parse = \<lambda>s. None, Number_toString = \<lambda>n. [], TypeError_message = []\<rparr>
        (\<lambda>params :: unit ChatCompletionCreateParams.
           Inr \<lparr>response_error = Some \<lparr>error_message = Some ''API Error'',
                                        error_code = Some (js_int 500)\<rparr>,
                 response_choices = []\<rparr>)
        \<lparr>model_ident = ''claude-3-5-sonnet-20241022'', model_maxTokens = None,
         model_temperature = Some (js_int 0)\<rparr>
        ''test prompt'')
      = Inl (new_Error msg)
      \<and> sublist ''500'' msg \<and> sublist ''API Error'' msg)"
proof -
  let ?env = "\<lparr>JSON_parse = \<lambda>s. None, Number_toString = \<lambda>n. [], TypeError_message = []\<rparr>"
  let ?resolved = "\<lparr>model_ident = ''claude-3-5-sonnet-20241022'', model_maxTokens = None,
                    model_temperature = Some (js_int 0)\<rparr>"
  let ?err = "\<lparr>error_message = Some ''API Error'', error_code = Some (js_int 500)\<rparr>"
  let ?c = "\<lparr>chunk_error = Some ?err, choices = [], usage = None\<rparr>"
  let ?post = "[Chunk \<lparr>chunk_error = None,
                     choices = [\<lparr>choice_delta = Some \<lparr>content = Some ''late''\<rparr>\<rparr>],
                     usage = None\<rparr>]"
  let ?create = "\<lambda>params :: string ChatCompletionCreateParams. Inr (map Chunk [] @ Chunk ?c # ?post)"
  let ?response = "\<lparr>response_error = Some ?err, response_choices = []\<rparr>"
  let ?createPrompt = "\<lambda>params :: unit ChatCompletionCreateParams. Inr ?response"
  have n: "number_to_string ?env (js_int 500) = ''500''"
    by code_simp
  have s: "?create (streamParams (\<lambda>h. h) ?resolved ''test'' ([] :: string list))
             = Inr (map Chunk [] @ Chunk ?c # ?post)
           \<and> (\<forall>p \<in> set []. chunk_error p = None)
           \<and> chunk_error ?c = Some ?err"
    by simp
  have p: "?createPrompt (promptParams ?resolved ''test prompt'') = Inr ?response
           \<and> response_error ?response = Some ?err"
    by simp
  note inst = in_band_error_is_raised
    [where env = ?env and cv = "\<lambda>h. h" and create = ?create and resolved = ?resolved
       and sp = "''test''" and h = "[] :: string list" and pre = "[]" and c = ?c and post = ?post
       and m = "''API Error''" and cd = "js_int 500" and createPrompt = ?createPrompt
       and prompt = "''test prompt''" and response = ?response]
  from inst s have
    "(\<exists>msg. raised (createMessage ?env (\<lambda>h. h) ?create ?resolved ''test'' ([] :: string list))
              = Some (new_Error msg)
        \<and> sublist (number_to_string ?env (js_int 500)) msg \<and> sublist ''API Error'' msg)
     \<and> events (createMessage ?env (\<lambda>h. h) ?create ?resolved ''test'' ([] :: string list)) = []"
    by blast
  moreover from inst p have
    "\<exists>msg. snd (completePrompt ?env ?createPrompt ?resolved ''test prompt'') = Inl (new_Error msg)
        \<and> sublist (number_to_string ?env (js_int 500)) msg \<and> sublist ''API Error'' msg"
    by blast
  ultimately show ?thesis
    by (simp only: n)
qed

subsection \<open>Cost\<close>

lemma round_ratio_not_NaN: "round_ratio n d \<noteq> NaN"
  by (simp add: round_ratio_def Let_def split: prod.splits)

lemma js_int_0: "js_int 0 = Fin 0 0"
  by (simp add: js_int_def round_ratio_def)

lemma number_or_json_number:
  "(\<forall>n. x = Some n \<longrightarrow> json_number n) \<Longrightarrow> number_or x (js_int 0) = default_zero x"
proof (cases x)
  case None
  then show ?thesis by (simp add: number_or_def default_zero_def)
next
  case (Some n)
  assume "\<forall>n. x = Some n \<longrightarrow> json_number n"
  with Some have "json_number n" by simp
  then show ?thesis
    by (cases n)
      (auto simp: Some number_or_def default_zero_def json_number_def is_double_def js_int_0)
qed

text \<open>
  A usage record is extracted from a chunk of the response, so its numbers are ones that
  JSON text denotes. On a NaN, which no JSON text denotes, \<open>||\<close> takes the default.
\<close>

lemma number_or_NaN: "number_or (Some NaN) d = d"
  by (simp add: number_or_def)

text \<open>
  Claim C7. For every usage record whose cost fields, when present, are numbers that
  JSON can denote (any binary64 value but NaN), the \<open>totalCost\<close> of the Usage event
  is \<open>upstream_inference_cost\<close> (0 when absent) plus \<open>cost\<close> (0 when absent), the sum
  being the binary64 one.
\<close>

theorem totalCost_is_sum_of_costs:
  assumes "\<forall>x. cost u = Some x \<longrightarrow> json_number x"
    and "\<forall>d x. usage_cost_details u = Some d \<and> upstream_inference_cost d = Some x
           \<longrightarrow> json_number x"
  shows "totalCost (usage_event_of u)
           = js_add
               (default_zero
                  (case usage_cost_details u of None \<Rightarrow> None | Some d \<Rightarrow> upstream_inference_cost d))
               (default_zero (cost u))
         \<and> getTotalCost u = totalCost (usage_event_of u)"
proof -
  from assms(2)
  have "\<forall>n. (case usage_cost_details u of None \<Rightarrow> None | Some d \<Rightarrow> upstream_inference_cost d)
              = Some n \<longrightarrow> json_number n"
    by (auto split: option.splits)
  then have "number_or
               (case usage_cost_details u of None \<Rightarrow> None | Some d \<Rightarrow> upstream_inference_cost d)
               (js_int 0)
             = default_zero
                 (case usage_cost_details u of None \<Rightarrow> None | Some d \<Rightarrow> upstream_inference_cost d)"
    by (rule number_or_json_number)
  moreover from assms(1) have "number_or (cost u) (js_int 0) = default_zero (cost u)"
    by (intro number_or_json_number) simp
  ultimately show ?thesis
    by (simp add: usage_event_of_def getTotalCost_def)
qed

theorem totalCost_is_sum_of_costs_witness:
  "json_number (round_ratio 5 10) \<and> json_number (round_ratio 2 10)
   \<and> totalCost (usage_event_of
        \<lparr>completion_tokens = None, usage_completion_tokens_details = None,
         prompt_tokens = None, usage_prompt_tokens_details = None, total_tokens = None,
         cost = Some (round_ratio 5 10), is_byok = None,
         usage_cost_details = Some \<lparr>upstream_inference_cost = Some (round_ratio 2 10)\<rparr>\<rparr>)
     = round_ratio 7 10"
proof -
  let ?u = "\<lparr>completion_tokens = None, usage_completion_tokens_details = None,
         prompt_tokens = None, usage_prompt_tokens_details = None, total_tokens = None,
         cost = Some (round_ratio 5 10), is_byok = None,
         usage_cost_details = Some \<lparr>upstream_inference_cost = Some (round_ratio 2 10)\<rparr>\<rparr>"
  have a: "json_number (round_ratio 5 10)" by code_simp
  have b: "json_number (round_ratio 2 10)" by code_simp
  have sum: "js_add (round_ratio 2 10) (round_ratio 5 10) = round_ratio 7 10" by code_simp
  have "totalCost (usage_event_of ?u)
          = js_add
              (default_zero
                 (case usage_cost_details ?u of None \<Rightarrow> None | Some d \<Rightarrow> upstream_inference_cost d))
              (default_zero (cost ?u))"
    using a b totalCost_is_sum_of_costs [of ?u] by simp
  then have "totalCost (usage_event_of ?u) = js_add (round_ratio 2 10) (round_ratio 5 10)"
    by (simp add: default_zero_def)
  with a b sum show ?thesis by simp
qed

subsection \<open>Request construction\<close>

lemma streamParams_max_tokens_positive:
  "max_tokens (streamParams cv resolved sp h) = Some n \<Longrightarrow> js_positive n"
  by (auto simp: streamParams_def spread_max_tokens_def split: option.splits if_splits)

lemma streamParams_temperature:
  "temperature (streamParams cv resolved sp h) = model_temperature resolved"
  by (simp add: streamParams_def)

text \<open>
  Claim C9 at the input where the code departs from it. With a resolved \<open>maxTokens\<close> of
  \<open>0\<close>, the streaming request has no \<open>max_tokens\<close> member, while the request of
  \<open>completePrompt\<close> carries \<open>max_tokens: 0\<close>.
\<close>

theorem completePrompt_sends_max_tokens_zero:
  "\<not> js_positive (js_int 0)
   \<and> max_tokens (sent (createMessage \<lparr>JSON_parse = \<lambda>s. None, Number_toString = \<lambda>n. [], TypeError_message = []\<rparr>
        (\<lambda>h. h) (\<lambda>params. Inr [])
        \<lparr>model_ident = ''claude-3-5-sonnet-20241022'', model_maxTokens = Some (js_int 0),
         model_temperature = Some (js_int 0)\<rparr>
        ''system'' ([] :: string list)))
     = None
   \<and> max_tokens (fst (completePrompt \<lparr>JSON_parse = \<lambda>s. None, Number_toString = \<lambda>n. [], TypeError_message = []\<rparr>
        (\<lambda>params :: unit ChatCompletionCreateParams.
           Inr \<lparr>response_error = None, response_choices = []\<rparr>)
        \<lparr>model_ident = ''claude-3-5-sonnet-20241022'', model_maxTokens = Some (js_int 0),
         model_temperature = Some (js_int 0)\<rparr>
        ''hello''))
     = Some (js_int 0)"
  by (simp add: js_int_0 createMessage_def completePrompt_def streamParams_def promptParams_def
      spread_max_tokens_def Let_def)

subsection \<open>The readable error message\<close>

lemma is_code_iff: "is_code v k \<longleftrightarrow> v = Some (JNum (js_int k))"
  by (auto simp: is_code_def number_strict_eq_def js_int_def round_ratio_not_NaN
      split: option.splits json.splits)

lemma first_truthy_find:
  "first_truthy rs = (case find truthy rs of None \<Rightarrow> None | Some r \<Rightarrow> r)"
  by (induction rs) (auto simp: first_truthy_def)

lemma get_prop_detail: "d \<noteq> JNull \<Longrightarrow> get_prop (Some d) ''retryDelay'' = Some (detail_retryDelay d)"
  by (cases d) (simp_all add: detail_retryDelay_def)

lemma retry_delays_no_null:
  "JNull \<notin> set ds \<Longrightarrow> retry_delays (Some (JArr ds)) = Some (map detail_retryDelay ds)"
  by (induction ds) (auto simp: retry_delays_def get_prop_detail)

lemma retry_delays_null: "JNull \<in> set ds \<Longrightarrow> retry_delays (Some (JArr ds)) = None"
  by (induction ds) (auto simp: retry_delays_def split: option.splits)

lemma retryAfter_of_details:
  "payload_details j = Some ds
     \<Longrightarrow> retryAfter_of j = map_option first_truthy (retry_delays (Some (JArr ds)))"
  by (cases "retry_delays (Some (JArr ds))")
    (auto simp: payload_details_def retryAfter_of_def is_nullish_def get_prop_opt_def Let_def
       split: json.splits option.splits)

lemma try_retry_message_raw:
  "raw_payload error = Some s
     \<Longrightarrow> try_retry_message env error
         = do {
             parsedJson \<leftarrow> JSON_parse env s;
             retryAfter \<leftarrow> retryAfter_of parsedJson;
             if truthy retryAfter then
               do {
                 t \<leftarrow> jsval_to_string env retryAfter;
                 Some (''Rate limit exceeded, try again in '' @ t @ ''.'')
               }
             else None
           }"
  by (auto simp: raw_payload_def body_raw_def try_retry_message_def thrown_error_def
      get_prop_opt_def jsval_to_string_def
      split: thrown.splits option.splits json.splits)

lemma try_retry_message_form:
  "try_retry_message env error = Some msg
     \<Longrightarrow> \<exists>t. msg = ''Rate limit exceeded, try again in '' @ t @ ''.''"
  by (auto simp: try_retry_message_def bind_eq_Some_conv split: if_splits)

lemma message_or_error_converts:
  "error \<noteq> ThrownSymbol \<Longrightarrow> \<forall>kvs. error \<noteq> ThrownObject kvs \<Longrightarrow> \<forall>xs. error \<noteq> ThrownArray xs
     \<Longrightarrow> \<exists>t. message_or_error env error = Some t"
  by (cases error)
    (simp_all add: message_or_error_def thrown_message_def thrown_to_string_def
       jsval_to_string_def)

lemma readable_of_text:
  "message_or_error env error = Some t \<Longrightarrow> \<exists>msg. makeCometAPIErrorReadable env error = Some msg"
  by (cases "try_retry_message env error") (simp_all add: makeCometAPIErrorReadable_def)

lemma find_truthy_Some: "find truthy rs = Some v \<Longrightarrow> truthy v"
  by (induction rs) (auto split: if_splits)

text \<open>
  Claim C8, amended. \<open>makeCometAPIErrorReadable\<close> returns a string whenever the text it
  appends (the error's message when that is truthy, the error itself otherwise) has a
  conversion to a string: so on every primitive but a Symbol and on every Error
  instance. Where that conversion fails and no wait-duration message is returned, the
  template literal, which stands outside the \<open>try\<close>, throws a TypeError. When the code is
  neither 429 nor 418 the string is \<open>CometAPI Error: \<close> followed by that text. When the
  code is 429 or 418 the result is either a wait-duration message or the generic
  rate-limit message followed by that text; with a raw payload \<open>error.error.metadata.raw\<close>
  it is the generic one when \<open>JSON.parse\<close> throws and when no element of
  \<open>error.details\<close> has a truthy \<open>retryDelay\<close>, and the wait-duration one, naming the
  first truthy \<open>retryDelay\<close>, when one is found among elements none of which is \<open>null\<close>.
\<close>

theorem readable_error_message:
  "(message_or_error env error = Some t
      \<longrightarrow> (\<exists>msg. makeCometAPIErrorReadable env error = Some msg))
   \<and> (error \<noteq> ThrownSymbol \<and> (\<forall>kvs. error \<noteq> ThrownObject kvs) \<and> (\<forall>xs. error \<noteq> ThrownArray xs)
      \<longrightarrow> (\<exists>msg. makeCometAPIErrorReadable env error = Some msg))
   \<and> (thrown_code error \<noteq> Some (JNum (js_int 429)) \<and> thrown_code error \<noteq> Some (JNum (js_int 418))
      \<longrightarrow> makeCometAPIErrorReadable env error
            = map_option (\<lambda>t. ''CometAPI Error: '' @ t) (message_or_error env error))
   \<and> (err_message e \<noteq> [] \<longrightarrow> message_or_error env (ThrownError e) = Some (err_message e))
   \<and> (err_message e = [] \<longrightarrow> message_or_error env (ThrownError e) = Some (error_toString e))
   \<and> message_or_error env (ThrownString str) = Some str
   \<and> (thrown_code error = Some (JNum (js_int 429)) \<or> thrown_code error = Some (JNum (js_int 418))
      \<longrightarrow> ((\<exists>d. makeCometAPIErrorReadable env error
                   = Some (''Rate limit exceeded, try again in '' @ d @ ''.''))
            \<or> makeCometAPIErrorReadable env error
                = map_option (\<lambda>t. ''Rate limit exceeded, try again later.'' @ [CHR 0x0A] @ t)
                    (message_or_error env error))
        \<and> (raw_payload error = Some s \<and> JSON_parse env s = None
            \<longrightarrow> makeCometAPIErrorReadable env error
                  = map_option (\<lambda>t. ''Rate limit exceeded, try again later.'' @ [CHR 0x0A] @ t)
                      (message_or_error env error))
        \<and> (raw_payload error = Some s \<and> JSON_parse env s = Some j \<and> payload_details j = Some ds
            \<longrightarrow> (find truthy (map detail_retryDelay ds) = None
                  \<longrightarrow> makeCometAPIErrorReadable env error
                        = map_option
                            (\<lambda>t. ''Rate limit exceeded, try again later.'' @ [CHR 0x0A] @ t)
                            (message_or_error env error))
                \<and> (JNull \<notin> set ds \<and> find truthy (map detail_retryDelay ds) = Some (Some r)
                     \<and> json_to_string env r = Some d
                  \<longrightarrow> makeCometAPIErrorReadable env error
                        = Some (''Rate limit exceeded, try again in '' @ d @ ''.''))))"
proof (intro conjI impI)
  assume "message_or_error env error = Some t"
  then show "\<exists>msg. makeCometAPIErrorReadable env error = Some msg"
    by (rule readable_of_text)
next
  assume "error \<noteq> ThrownSymbol \<and> (\<forall>kvs. error \<noteq> ThrownObject kvs) \<and> (\<forall>xs. error \<noteq> ThrownArray xs)"
  then obtain t' where "message_or_error env error = Some t'"
    using message_or_error_converts [of error env] by blast
  then show "\<exists>msg. makeCometAPIErrorReadable env error = Some msg"
    by (rule readable_of_text)
next
  assume "thrown_code error \<noteq> Some (JNum (js_int 429))
            \<and> thrown_code error \<noteq> Some (JNum (js_int 418))"
  then show "makeCometAPIErrorReadable env error
      = map_option (\<lambda>t. ''CometAPI Error: '' @ t) (message_or_error env error)"
    by (cases "message_or_error env error") (simp_all add: makeCometAPIErrorReadable_def is_code_iff)
next
  assume "err_message e \<noteq> []"
  then show "message_or_error env (ThrownError e) = Some (err_message e)"
    by (simp add: message_or_error_def thrown_message_def jsval_to_string_def)
next
  assume "err_message e = []"
  then show "message_or_error env (ThrownError e) = Some (error_toString e)"
    by (simp add: message_or_error_def thrown_message_def thrown_to_string_def)
next
  show "message_or_error env (ThrownString str) = Some str"
    by (simp add: message_or_error_def thrown_message_def thrown_to_string_def)
next
  let ?generic = "map_option (\<lambda>t. ''Rate limit exceeded, try again later.'' @ [CHR 0x0A] @ t)
      (message_or_error env error)"
  assume "thrown_code error = Some (JNum (js_int 429)) \<or> thrown_code error = Some (JNum (js_int 418))"
  then have result: "makeCometAPIErrorReadable env error
      = (case try_retry_message env error of Some msg \<Rightarrow> Some msg | None \<Rightarrow> ?generic)"
    by (cases "message_or_error env error")
      (auto simp: makeCometAPIErrorReadable_def is_code_iff split: option.splits)
  show "(\<exists>d. makeCometAPIErrorReadable env error
            = Some (''Rate limit exceeded, try again in '' @ d @ ''.''))
          \<or> makeCometAPIErrorReadable env error = ?generic"
  proof (cases "try_retry_message env error")
    case None
    with result show ?thesis by simp
  next
    case (Some msg)
    from try_retry_message_form [OF this] result Some show ?thesis by auto
  qed
  {
    assume "raw_payload error = Some s \<and> JSON_parse env s = None"
    then have "try_retry_message env error = None"
      by (simp add: try_retry_message_raw)
    with result show "makeCometAPIErrorReadable env error = ?generic"
      by simp
  }
  {
    assume a: "raw_payload error = Some s \<and> JSON_parse env s = Some j \<and> payload_details j = Some ds"
    then have tr: "try_retry_message env error
        = do {
            retryAfter \<leftarrow> map_option first_truthy (retry_delays (Some (JArr ds)));
            if truthy retryAfter then
              do {
                t \<leftarrow> jsval_to_string env retryAfter;
                Some (''Rate limit exceeded, try again in '' @ t @ ''.'')
              }
            else None
          }"
      by (simp add: try_retry_message_raw retryAfter_of_details)
    {
      assume none: "find truthy (map detail_retryDelay ds) = None"
      have "try_retry_message env error = None"
      proof (cases "JNull \<in> set ds")
        case True
        then show ?thesis by (simp add: tr retry_delays_null)
      next
        case False
        then have "retry_delays (Some (JArr ds)) = Some (map detail_retryDelay ds)"
          by (rule retry_delays_no_null)
        with none show ?thesis
          by (simp add: tr first_truthy_find)
      qed
      with result show "makeCometAPIErrorReadable env error = ?generic"
        by simp
    }
    {
      assume b: "JNull \<notin> set ds \<and> find truthy (map detail_retryDelay ds) = Some (Some r)
                     \<and> json_to_string env r = Some d"
      then have "retry_delays (Some (JArr ds)) = Some (map detail_retryDelay ds)"
        by (simp add: retry_delays_no_null)
      moreover from b have "truthy (Some r)"
        using find_truthy_Some by blast
      ultimately have "try_retry_message env error
          = Some (''Rate limit exceeded, try again in '' @ d @ ''.'')"
        using b by (simp add: tr first_truthy_find jsval_to_string_def)
      with result show "makeCometAPIErrorReadable env error
          = Some (''Rate limit exceeded, try again in '' @ d @ ''.'')"
        by simp
    }
  }
qed

theorem readable_error_message_witness:
  \<open>makeCometAPIErrorReadable
       \<lparr>JSON_parse =
          (\<lambda>s. if s = ''{"error":{"details":[{},{"retryDelay":"30s"}]}}''
                then Some (JObj [(''error'', JObj [(''details'',
                        JArr [JObj [], JObj [(''retryDelay'', JStr ''30s'')]])])])
                else if s = ''{"error":{"details":[]}}''
                then Some (JObj [(''error'', JObj [(''details'', JArr [])])])
                else None),
        Number_toString = \<lambda>n. [], TypeError_message = []\<rparr>
       (ThrownError \<lparr>err_name = ''Error'', err_message = ''Connection reset'',
                     err_code = None, err_error = None\<rparr>)
     = Some ''CometAPI Error: Connection reset''
   \<and> makeCometAPIErrorReadable
       \<lparr>JSON_parse =
          (\<lambda>s. if s = ''{"error":{"details":[{},{"retryDelay":"30s"}]}}''
                then Some (JObj [(''error'', JObj [(''details'',
                        JArr [JObj [], JObj [(''retryDelay'', JStr ''30s'')]])])])
                else if s = ''{"error":{"details":[]}}''
                then Some (JObj [(''error'', JObj [(''details'', JArr [])])])
                else None),
        Number_toString = \<lambda>n. [], TypeError_message = []\<rparr>
       (ThrownError \<lparr>err_name = ''Error'', err_message = ''Too Many Requests'',
                     err_code = Some (JNum (js_int 429)),
                     err_error = Some (JObj [(''metadata'', JObj [(''raw'',
                        JStr ''{"error":{"details":[{},{"retryDelay":"30s"}]}}'')])])\<rparr>)
     = Some ''Rate limit exceeded, try again in 30s.''
   \<and> makeCometAPIErrorReadable
       \<lparr>JSON_parse =
          (\<lambda>s. if s = ''{"error":{"details":[{},{"retryDelay":"30s"}]}}''
                then Some (JObj [(''error'', JObj [(''details'',
                        JArr [JObj [], JObj [(''retryDelay'', JStr ''30s'')]])])])
                else if s = ''{"error":{"details":[]}}''
                then Some (JObj [(''error'', JObj [(''details'', JArr [])])])
                else None),
        Number_toString = \<lambda>n. [], TypeError_message = []\<rparr>
       (ThrownError \<lparr>err_name = ''Error'', err_message = ''Too Many Requests'',
                     err_code = Some (JNum (js_int 418)),
                     err_error = Some (JObj [(''metadata'', JObj [(''raw'',
                        JStr ''<html>busy</html>'')])])\<rparr>)
     = Some (''Rate limit exceeded, try again later.'' @ [CHR 0x0A] @ ''Too Many Requests'')
   \<and> makeCometAPIErrorReadable
       \<lparr>JSON_parse =
          (\<lambda>s. if s = ''{"error":{"details":[{},{"retryDelay":"30s"}]}}''
                then Some (JObj [(''error'', JObj [(''details'',
                        JArr [JObj [], JObj [(''retryDelay'', JStr ''30s'')]])])])
                else if s = ''{"error":{"details":[]}}''
                then Some (JObj [(''error'', JObj [(''details'', JArr [])])])
                else None),
        Number_toString = \<lambda>n. [], TypeError_message = []\<rparr>
       (ThrownError \<lparr>err_name = ''Error'', err_message = ''Too Many Requests'',
                     err_code = Some (JNum (js_int 429)),
                     err_error = Some (JObj [(''metadata'', JObj [(''raw'',
                        JStr ''{"error":{"details":[]}}'')])])\<rparr>)
     = Some (''Rate limit exceeded, try again later.'' @ [CHR 0x0A] @ ''Too Many Requests'')
   \<and> makeCometAPIErrorReadable
       \<lparr>JSON_parse =
          (\<lambda>s. if s = ''{"error":{"details":[{},{"retryDelay":"30s"}]}}''
                then Some (JObj [(''error'', JObj [(''details'',
                        JArr [JObj [], JObj [(''retryDelay'', JStr ''30s'')]])])])
                else if s = ''{"error":{"details":[]}}''
                then Some (JObj [(''error'', JObj [(''details'', JArr [])])])
                else None),
        Number_toString = \<lambda>n. [], TypeError_message = []\<rparr>
       (ThrownString ''socket hang up'')
     = Some ''CometAPI Error: socket hang up''\<close>
proof -
  let ?raw1 = \<open>''{"error":{"details":[{},{"retryDelay":"30s"}]}}''\<close>
  let ?raw2 = \<open>''{"error":{"details":[]}}''\<close>
  let ?j1 = "JObj [(''error'', JObj [(''details'',
                        JArr [JObj [], JObj [(''retryDelay'', JStr ''30s'')]])])]"
  let ?j2 = "JObj [(''error'', JObj [(''details'', JArr [])])]"
  let ?env = "\<lparr>JSON_parse = (\<lambda>s. if s = ?raw1 then Some ?j1 else if s = ?raw2 then Some ?j2 else None),
               Number_toString = \<lambda>n. [], TypeError_message = []\<rparr>"
  let ?plain = "ThrownError \<lparr>err_name = ''Error'', err_message = ''Connection reset'',
                     err_code = None, err_error = None\<rparr>"
  let ?limited = "\<lambda>c raw. ThrownError \<lparr>err_name = ''Error'', err_message = ''Too Many Requests'',
                     err_code = Some (JNum (js_int c)),
                     err_error = Some (JObj [(''metadata'', JObj [(''raw'', JStr raw)])])\<rparr>"
  have msg: "\<And>c raw. message_or_error ?env (?limited c raw) = Some ''Too Many Requests''"
    by (simp add: message_or_error_def thrown_message_def jsval_to_string_def)
  have raw: "\<And>c raw. raw_payload (?limited c raw) = Some raw"
    by (simp add: raw_payload_def body_raw_def member_def)
  have code: "\<And>c raw. thrown_code (?limited c raw) = Some (JNum (js_int c))"
    by (simp add: thrown_code_def)
  have d1: "payload_details ?j1 = Some [JObj [], JObj [(''retryDelay'', JStr ''30s'')]]"
    by (simp add: payload_details_def member_def)
  have d2: "payload_details ?j2 = Some []"
    by (simp add: payload_details_def member_def)
  have f1: "find truthy (map detail_retryDelay [JObj [], JObj [(''retryDelay'', JStr ''30s'')]])
              = Some (Some (JStr ''30s''))"
    by (simp add: detail_retryDelay_def member_def)
  note inst = readable_error_message [where env = ?env]
  have "makeCometAPIErrorReadable ?env ?plain
          = map_option (\<lambda>t. ''CometAPI Error: '' @ t) (message_or_error ?env ?plain)"
    using inst [where error = ?plain] by (simp add: thrown_code_def)
  then have r1: "makeCometAPIErrorReadable ?env ?plain = Some ''CometAPI Error: Connection reset''"
    by (simp add: message_or_error_def thrown_message_def jsval_to_string_def)
  have r2: "makeCometAPIErrorReadable ?env (?limited 429 ?raw1)
              = Some ''Rate limit exceeded, try again in 30s.''"
    using inst [where error = "?limited 429 ?raw1" and s = ?raw1 and j = ?j1
                  and ds = "[JObj [], JObj [(''retryDelay'', JStr ''30s'')]]"
                  and r = "JStr ''30s''" and d = "''30s''"]
      raw [of 429 ?raw1] code [of 429 ?raw1] d1 f1
    by simp
  have r3: "makeCometAPIErrorReadable ?env (?limited 418 ''<html>busy</html>'')
              = Some (''Rate limit exceeded, try again later.'' @ [CHR 0x0A] @ ''Too Many Requests'')"
    using inst [where error = "?limited 418 ''<html>busy</html>''" and s = "''<html>busy</html>''"]
      raw [of 418 "''<html>busy</html>''"] code [of 418 "''<html>busy</html>''"]
      msg [of 418 "''<html>busy</html>''"]
    by simp
  have r4: "makeCometAPIErrorReadable ?env (?limited 429 ?raw2)
              = Some (''Rate limit exceeded, try again later.'' @ [CHR 0x0A] @ ''Too Many Requests'')"
    using inst [where error = "?limited 429 ?raw2" and s = ?raw2 and j = ?j2 and ds = "[]"]
      raw [of 429 ?raw2] code [of 429 ?raw2] msg [of 429 ?raw2] d2
    by simp
  have "makeCometAPIErrorReadable ?env (ThrownString ''socket hang up'')
          = map_option (\<lambda>t. ''CometAPI Error: '' @ t)
              (message_or_error ?env (ThrownString ''socket hang up''))
        \<and> message_or_error ?env (ThrownString ''socket hang up'') = Some ''socket hang up''"
    using inst [where error = "ThrownString ''socket hang up''" and str = "''socket hang up''"]
    by (simp add: thrown_code_def)
  then have r5: "makeCometAPIErrorReadable ?env (ThrownString ''socket hang up'')
      = Some ''CometAPI Error: socket hang up''"
    by simp
  from r1 r2 r3 r4 r5 show ?thesis
    by simp
qed

text \<open>
  Claim C8 as the spec states it fails. On a caught Symbol, and on a caught plain object
  that has a member of its own named \<open>toString\<close> (\<open>{ toString: null }\<close>), the code is
  neither 429 nor 418 and the template literal of the first \<open>return\<close> throws a TypeError:
  the transform raises.
\<close>

theorem readable_error_message_raises:
  "makeCometAPIErrorReadable
       \<lparr>JSON_parse = \<lambda>s. None, Number_toString = \<lambda>n. [], TypeError_message = []\<rparr>
       ThrownSymbol
     = None
   \<and> makeCometAPIErrorReadable
       \<lparr>JSON_parse = \<lambda>s. None, Number_toString = \<lambda>n. [], TypeError_message = []\<rparr>
       (ThrownObject [(''toString'', JNull)])
     = None"
  by (simp add: makeCometAPIErrorReadable_def thrown_code_def is_code_def message_or_error_def
      thrown_message_def thrown_to_string_def member_def)

end
